theory Spec2Isabelle
  imports Complex_Main
begin

section \<open>Python values, exceptions and sequences\<close>

text \<open>
  The module \<open>ims/pca.py\<close> is a wrapper around a principal component analysis and three
  plotting methods. Floating-point values (numpy \<open>float64\<close>) are idealised as the reals:
  the properties verified below concern which values are selected, combined and passed
  on, not the rounding behaviour of IEEE arithmetic. Python's unbounded \<open>int\<close> is \<open>int\<close>.
\<close>

datatype error = IndexError | ValueError | KeyError | OSError | OverflowError

text \<open>Values that end up in table cells, axis labels and tick labels.\<close>

datatype pyval = PyFloat real | PyInt int | PyStr string

text \<open>
  Indexing a sequence of length \<open>n\<close> with a Python integer: a negative index counts from
  the end, anything outside \<open>[-n, n)\<close> raises \<open>IndexError\<close>. Lists and numpy arrays agree
  on this.
\<close>

definition py_index :: "nat \<Rightarrow> int \<Rightarrow> error + nat" where
  "py_index n i =
     (let j = (if i < 0 then int n + i else i)
      in if 0 \<le> j \<and> j < int n then Inr (nat j) else Inl IndexError)"

definition py_getitem :: "'a list \<Rightarrow> int \<Rightarrow> error + 'a" where
  "py_getitem xs i = (case py_index (length xs) i of Inl e \<Rightarrow> Inl e | Inr k \<Rightarrow> Inr (xs ! k))"

text \<open>
  A loop or comprehension that builds a list from \<open>xs\<close>, left to right, and stops at
  the first element whose computation raises.
\<close>

fun list_comp :: "('a \<Rightarrow> error + 'b) \<Rightarrow> 'a list \<Rightarrow> error + 'b list" where
  "list_comp f [] = Inr []"
| "list_comp f (x # xs) =
     (case f x of
        Inl e \<Rightarrow> Inl e
      | Inr y \<Rightarrow> (case list_comp f xs of Inl e \<Rightarrow> Inl e | Inr ys \<Rightarrow> Inr (y # ys)))"

text \<open>The slice \<open>xs[1:-1]\<close>: everything but the first and the last element.\<close>

definition slice_1_m1 :: "'a list \<Rightarrow> 'a list" where
  "slice_1_m1 xs = butlast (tl xs)"

text \<open>\<open>int(x)\<close> on a float truncates towards zero.\<close>

definition py_int :: "real \<Rightarrow> int" where
  "py_int x = (if 0 \<le> x then \<lfloor>x\<rfloor> else \<lceil>x\<rceil>)"

text \<open>
  \<open>round(x)\<close> rounds to the nearest integer, ties to the even one, and returns an
  \<open>int\<close>; \<open>round(x, nd)\<close> scales by \<open>10 ^ nd\<close>, rounds the same way and scales back,
  returning a float.
\<close>

definition py_round :: "real \<Rightarrow> int" where
  "py_round x =
     (let f = \<lfloor>x\<rfloor>; d = x - of_int f
      in if d < 1 / 2 then f else if 1 / 2 < d then f + 1 else if even f then f else f + 1)"

definition py_round_nd :: "real \<Rightarrow> nat \<Rightarrow> real" where
  "py_round_nd x nd = of_int (py_round (x * 10 ^ nd)) / 10 ^ nd"

text \<open>\<open>str(n)\<close> for an integer: its decimal digits, with a leading minus sign if negative.\<close>

definition digit_char :: "nat \<Rightarrow> char" where
  "digit_char d = char_of (48 + d)"

function str_nat :: "nat \<Rightarrow> string" where
  "str_nat n = (if n < 10 then [digit_char n] else str_nat (n div 10) @ [digit_char (n mod 10)])"
  by pat_completeness auto
termination
  by (relation "measure id") auto

declare str_nat.simps [simp del]

definition str_int :: "int \<Rightarrow> string" where
  "str_int i = (if i < 0 then CHR ''-'' # str_nat (nat (- i)) else str_nat (nat i))"

section \<open>numpy arrays\<close>

text \<open>
  A two-dimensional array carries its shape and its rows. The shape is kept apart from
  the rows because an array with no rows still has a column count, which broadcasting
  inspects. In an array that numpy can build the two agree: there are \<open>shape0\<close> rows of
  \<open>shape1\<close> entries each (\<open>ndarray_ok\<close>).
\<close>

record ndarray =
  shape0 :: nat
  shape1 :: nat
  rows :: "real list list"

definition ndarray_ok :: "ndarray \<Rightarrow> bool" where
  "ndarray_ok a \<longleftrightarrow>
     length (rows a) = shape0 a \<and> list_all (\<lambda>r. length r = shape1 a) (rows a)"

text \<open>
  \<open>a / w\<close> for a 2-D array \<open>a\<close> of shape \<open>(k, m)\<close> and a 1-D array \<open>w\<close> of shape \<open>(n,)\<close>:
  numpy broadcasts \<open>w\<close> along the rows. The trailing dimensions must agree or one of
  them must be 1, otherwise the operands cannot be broadcast together (\<open>ValueError\<close>).
\<close>

definition np_divide :: "ndarray \<Rightarrow> real list \<Rightarrow> error + ndarray" where
  "np_divide a w =
     (let m = shape1 a; n = length w in
      if m = n then Inr (a\<lparr>rows := map (\<lambda>r. map2 (/) r w) (rows a)\<rparr>)
      else if n = 1 then Inr (a\<lparr>rows := map (map (\<lambda>c. c / hd w)) (rows a)\<rparr>)
      else if m = 1 then
        Inr \<lparr>shape0 = shape0 a, shape1 = n, rows = map (\<lambda>r. map (\<lambda>x. hd r / x) w) (rows a)\<rparr>
      else Inl ValueError)"

text \<open>
  \<open>a[i, :]\<close>: row \<open>i\<close> of a 2-D array, with Python's index rules on the first axis.
  numpy converts the index to a signed 64-bit integer before it checks the bounds. An
  index within the bounds always fits; one outside the bounds raises \<open>IndexError\<close> if it
  fits, and otherwise the conversion itself fails (with \<open>OverflowError\<close> for \<open>2 ^ 63\<close>).
  Which exception the failed conversion raises is numpy's affair and a parameter here.
\<close>

record numpy =
  intp_error :: "int \<Rightarrow> error"

definition np_getrow :: "numpy \<Rightarrow> ndarray \<Rightarrow> int \<Rightarrow> error + real list" where
  "np_getrow np a i =
     (case py_index (shape0 a) i of
        Inr k \<Rightarrow> Inr (rows a ! k)
      | Inl e \<Rightarrow>
          if - (2 ^ 63) \<le> i \<and> i < 2 ^ 63 then Inl e else Inl (intp_error np i))"

text \<open>
  \<open>v.reshape(r, c)\<close> on a 1-D array: the sizes must agree, else \<open>ValueError\<close>
  (cannot reshape array of size \<open>len(v)\<close> into shape \<open>(r, c)\<close>); the result is filled in
  row-major order.
\<close>

fun chunks :: "nat \<Rightarrow> nat \<Rightarrow> 'a list \<Rightarrow> 'a list list" where
  "chunks 0 c v = []"
| "chunks (Suc r) c v = take c v # chunks r c (drop c v)"

definition np_reshape :: "real list \<Rightarrow> nat \<Rightarrow> nat \<Rightarrow> error + ndarray" where
  "np_reshape v r c =
     (if length v = r * c then Inr \<lparr>shape0 = r, shape1 = c, rows = chunks r c v\<rparr>
      else Inl ValueError)"

text \<open>\<open>np.cumsum(y)\<close>: running sums from the left; \<open>y * 100\<close>: element-wise.\<close>

fun cumsum_from :: "real \<Rightarrow> real list \<Rightarrow> real list" where
  "cumsum_from acc [] = []"
| "cumsum_from acc (y # ys) = (acc + y) # cumsum_from (acc + y) ys"

definition np_cumsum :: "real list \<Rightarrow> real list" where
  "np_cumsum y = cumsum_from 0 y"

definition np_scale :: "real list \<Rightarrow> real \<Rightarrow> real list" where
  "np_scale y c = map (\<lambda>v. v * c) y"

section \<open>The dataset and the base model\<close>

text \<open>
  Modelled from the spec: the dataset collaborator (class \<open>Dataset\<close> of the \<open>ims\<close>
  package, not part of \<open>ims/pca.py\<close>). It provides a name, the per-sample identifiers
  and labels, a numeric feature matrix, and its spectra; each spectrum carries the
  retention-time and drift-time axes and the drift-time axis label.
\<close>

record Spectrum =
  ret_time :: "real list"
  drift_time :: "real list"
  drift_time_label :: string

record Dataset =
  name :: string
  samples :: "string list"
  labels :: "string list"
  features :: ndarray
  spectra :: "Spectrum list"

text \<open>Modelled from the spec: \<open>dataset[i]\<close> is the \<open>i\<close>-th spectrum of the dataset.\<close>

definition Dataset_getitem :: "Dataset \<Rightarrow> int \<Rightarrow> error + Spectrum" where
  "Dataset_getitem ds i = py_getitem (spectra ds) i"

text \<open>
  Modelled from the spec: \<open>BaseModel.__init__\<close> (the parent class from the \<open>ims\<close>
  package, not part of \<open>ims/pca.py\<close>). It keeps the dataset and the scaling-method key
  and exposes the (possibly scaled) feature matrix \<open>X\<close> and the per-feature weight
  vector. The scaling transform itself, which also rejects unknown keys, is the
  parameter \<open>scale\<close>.
\<close>

record BaseModel =
  dataset :: Dataset
  scaling_method :: "string option"
  X :: ndarray
  weights :: "real list"

type_synonym scaler = "ndarray \<Rightarrow> string option \<Rightarrow> error + ndarray \<times> real list"

definition BaseModel_init :: "scaler \<Rightarrow> Dataset \<Rightarrow> string option \<Rightarrow> error + BaseModel" where
  "BaseModel_init scale ds sm =
     (case scale (features ds) sm of
        Inl e \<Rightarrow> Inl e
      | Inr (x, w) \<Rightarrow> Inr \<lparr>dataset = ds, scaling_method = sm, X = x, weights = w\<rparr>)"

section \<open>The fitted decomposition\<close>

text \<open>
  The decomposition is scikit-learn's \<open>PCA\<close>. The wrapper reads three attributes of the
  fitted object; fitting and transforming are parameters of the model (\<open>sklearn\<close>), and
  either may raise. The attributes \<open>n_components_\<close>, \<open>explained_variance_ratio_\<close> and
  \<open>components_\<close> are written with a prime in place of the trailing underscore.
\<close>

record PCA =
  n_components' :: nat
  explained_variance_ratio' :: "real list"
  components' :: ndarray

record kwargs =
  n_components :: "nat option"

record sklearn =
  PCA_fit :: "kwargs \<Rightarrow> ndarray \<Rightarrow> error + PCA"
  PCA_transform :: "PCA \<Rightarrow> ndarray \<Rightarrow> error + ndarray"

section \<open>\<open>PCA_Model.__init__\<close>\<close>

record PCA_Model = BaseModel +
  pca :: PCA
  pc :: ndarray
  loadings :: ndarray

definition PCA_Model_init ::
  "sklearn \<Rightarrow> scaler \<Rightarrow> Dataset \<Rightarrow> string option \<Rightarrow> kwargs \<Rightarrow> error + PCA_Model" where
  "PCA_Model_init sk scale ds sm kw =
     (case BaseModel_init scale ds sm of
        Inl e \<Rightarrow> Inl e
      | Inr b \<Rightarrow>
     (case PCA_fit sk kw (X b) of
        Inl e \<Rightarrow> Inl e
      | Inr p \<Rightarrow>
     (case PCA_transform sk p (X b) of
        Inl e \<Rightarrow> Inl e
      | Inr scores \<Rightarrow>
        if scaling_method b \<noteq> None \<and> sm \<noteq> Some ''standard'' then
          (case np_divide (components' p) (weights b) of
             Inl e \<Rightarrow> Inl e
           | Inr l \<Rightarrow>
               Inr \<lparr>dataset = dataset b, scaling_method = scaling_method b, X = X b,
                    weights = weights b, pca = p, pc = scores, loadings = l\<rparr>)
        else
          Inr \<lparr>dataset = dataset b, scaling_method = scaling_method b, X = X b,
               weights = weights b, pca = p, pc = scores, loadings = components' p\<rparr>)))"

section \<open>pandas, seaborn and matplotlib\<close>

text \<open>
  The table built by \<open>scatter_plot\<close>: an index length and named columns in order.
  \<open>pd.DataFrame(data, columns)\<close> needs one name per column of the 2-D array, and
  \<open>df[key] = values\<close> needs one value per row; both raise \<open>ValueError\<close> otherwise.
\<close>

record DataFrame =
  index_len :: nat
  columns :: "(string \<times> pyval list) list"

definition pd_DataFrame :: "ndarray \<Rightarrow> string list \<Rightarrow> error + DataFrame" where
  "pd_DataFrame dat cols =
     (if length cols = shape1 dat then
        Inr \<lparr>index_len = shape0 dat,
             columns = map (\<lambda>j. (cols ! j, map (\<lambda>r. PyFloat (r ! j)) (rows dat))) [0..<length cols]\<rparr>
      else Inl ValueError)"

definition df_setitem :: "DataFrame \<Rightarrow> string \<Rightarrow> pyval list \<Rightarrow> error + DataFrame" where
  "df_setitem df key vals =
     (if length vals = index_len df then
        Inr (df\<lparr>columns :=
               (if key \<in> fst ` set (columns df)
                then map (\<lambda>(k, v). if k = key then (k, vals) else (k, v)) (columns df)
                else columns df @ [(key, vals)])\<rparr>)
      else Inl ValueError)"

text \<open>
  \<open>sns.scatterplot(x=..., y=..., data=df, hue=..., style=..., s=100)\<close>: every string
  argument names a column of \<open>df\<close>; a name that is no column cannot be interpreted and
  raises \<open>ValueError\<close>.
\<close>

record scatter_artist =
  scatter_x :: "pyval list"
  scatter_y :: "pyval list"
  scatter_hue :: "pyval list"
  scatter_style :: "pyval list"
  scatter_s :: real

definition sns_scatterplot ::
  "DataFrame \<Rightarrow> string \<Rightarrow> string \<Rightarrow> string \<Rightarrow> string \<Rightarrow> error + scatter_artist" where
  "sns_scatterplot df x y hue style =
     (case map_of (columns df) x of None \<Rightarrow> Inl ValueError | Some cx \<Rightarrow>
     (case map_of (columns df) y of None \<Rightarrow> Inl ValueError | Some cy \<Rightarrow>
     (case map_of (columns df) hue of None \<Rightarrow> Inl ValueError | Some ch \<Rightarrow>
     (case map_of (columns df) style of None \<Rightarrow> Inl ValueError | Some cs \<Rightarrow>
        Inr \<lparr>scatter_x = cx, scatter_y = cy, scatter_hue = ch, scatter_style = cs,
             scatter_s = 100\<rparr>))))"

text \<open>What a figure holds after the calls made by the three plot methods.\<close>

record imshow_artist =
  img :: ndarray
  origin :: string
  aspect :: string
  cmap :: string
  vmin :: real
  vmax :: real

record line_artist =
  line_x :: "real list"
  line_y :: "real list"
  line_label :: string

record legend_opts =
  frameon :: bool
  fancybox :: bool
  facecolor :: string

record label_text =
  text_of :: "pyval list"
  fontsize :: "real option"

datatype locator = MaxNLocator bool | AutoMinorLocator

record figure =
  figsize :: "real \<times> real"
  style_sheet :: "string option"
  scatters :: "scatter_artist list"
  imshows :: "imshow_artist list"
  colorbar :: bool
  plots :: "line_artist list"
  legend :: "legend_opts option"
  xlabel :: "label_text option"
  ylabel :: "label_text option"
  title :: "label_text option"
  xticks :: "(real list \<times> pyval list) option"
  yticks :: "(real list \<times> pyval list) option"
  x_major_locator :: "locator option"
  y_major_locator :: "locator option"
  x_minor_locator :: "locator option"
  y_minor_locator :: "locator option"
  texts :: "(pyval \<times> pyval \<times> pyval) list"

definition new_figure :: "real \<times> real \<Rightarrow> string option \<Rightarrow> figure" where
  "new_figure sz sty =
     \<lparr>figsize = sz, style_sheet = sty, scatters = [], imshows = [], colorbar = False,
      plots = [], legend = None, xlabel = None, ylabel = None, title = None,
      xticks = None, yticks = None, x_major_locator = None, y_major_locator = None,
      x_minor_locator = None, y_minor_locator = None, texts = []\<rparr>"

text \<open>
  What matplotlib decides on its own: which style sheets exist (entering
  \<open>plt.style.context\<close> with an unknown one raises \<open>OSError\<close>) and where the automatic
  tick locations of a figure's axes lie (\<open>plt.xticks()\<close> and \<open>plt.yticks()\<close> without
  arguments return them).
\<close>

record matplotlib =
  style_available :: "string \<Rightarrow> bool"
  auto_xticks :: "figure \<Rightarrow> real list"
  auto_yticks :: "figure \<Rightarrow> real list"

text \<open>
  The state a method call runs in: the model object \<open>self\<close> and pyplot's registry of
  open figures, the most recently created one being current. A figure object is
  identified by its position in the registry.
\<close>

record world =
  self :: PCA_Model
  figs :: "figure list"

definition plt_subplots :: "real \<times> real \<Rightarrow> string option \<Rightarrow> world \<Rightarrow> nat \<times> world" where
  "plt_subplots sz sty w = (length (figs w), w\<lparr>figs := figs w @ [new_figure sz sty]\<rparr>)"

definition gcf_update :: "(figure \<Rightarrow> figure) \<Rightarrow> world \<Rightarrow> world" where
  "gcf_update g w =
     (if figs w = [] then w\<lparr>figs := [g (new_figure (6.4, 4.8) None)]\<rparr>
      else w\<lparr>figs := butlast (figs w) @ [g (last (figs w))]\<rparr>)"

definition gcf :: "world \<Rightarrow> figure" where
  "gcf w = (if figs w = [] then new_figure (6.4, 4.8) None else last (figs w))"

text \<open>\<open>ax.plot(x, y, label=...)\<close>: \<open>x\<close> and \<open>y\<close> must have the same length.\<close>

definition ax_plot :: "real list \<Rightarrow> real list \<Rightarrow> string \<Rightarrow> error + line_artist" where
  "ax_plot x y lab =
     (if length x = length y then Inr \<lparr>line_x = x, line_y = y, line_label = lab\<rparr>
      else Inl ValueError)"

section \<open>\<open>PCA_Model.scatter_plot\<close>\<close>

text \<open>
  The steps of the method in source order: the loop computing the rounded percentages,
  the score table with its \<open>Sample\<close> and \<open>Label\<close> columns, the style context, the new
  figure, the seaborn call, the legend, the two axis labels and, if asked for, one text
  per sample. A method takes the state it runs in and returns the figure or the error
  together with the state it leaves behind.
\<close>

definition pc_names :: "nat \<Rightarrow> string list" where
  "pc_names n = map (\<lambda>x. ''PC '' @ str_int (int x)) [1..<n + 1]"

definition expl_var_of :: "PCA \<Rightarrow> error + real list" where
  "expl_var_of p =
     list_comp
       (\<lambda>i. case py_getitem (explained_variance_ratio' p) (int i - 1) of
               Inl e \<Rightarrow> Inl e
             | Inr v \<Rightarrow> Inr (py_round_nd (v * 100) 1))
       [1..<n_components' p + 1]"

definition pc_df_of :: "PCA_Model \<Rightarrow> error + DataFrame" where
  "pc_df_of m =
     (case pd_DataFrame (pc m) (pc_names (n_components' (pca m))) of
        Inl e \<Rightarrow> Inl e
      | Inr df \<Rightarrow>
     (case df_setitem df ''Sample'' (map PyStr (samples (dataset m))) of
        Inl e \<Rightarrow> Inl e
      | Inr df1 \<Rightarrow> df_setitem df1 ''Label'' (map PyStr (labels (dataset m)))))"

definition point_texts ::
  "DataFrame \<Rightarrow> string \<Rightarrow> string \<Rightarrow> error + (pyval \<times> pyval \<times> pyval) list" where
  "point_texts df cx cy =
     (if index_len df = 0 then Inr []
      else
     (case map_of (columns df) cx of None \<Rightarrow> Inl KeyError | Some vx \<Rightarrow>
     (case map_of (columns df) cy of None \<Rightarrow> Inl KeyError | Some vy \<Rightarrow>
     (case map_of (columns df) ''Sample'' of None \<Rightarrow> Inl KeyError | Some vs \<Rightarrow>
        Inr (zip vx (zip vy vs))))))"

definition scatter_plot ::
  "matplotlib \<Rightarrow> int \<Rightarrow> int \<Rightarrow> real \<Rightarrow> real \<Rightarrow> string \<Rightarrow> string \<Rightarrow> bool \<Rightarrow> world
     \<Rightarrow> (error + nat) \<times> world" where
  "scatter_plot mpl PC_x PC_y width height hue style label w =
     (case expl_var_of (pca (self w)) of
        Inl e \<Rightarrow> (Inl e, w)
      | Inr expl_var \<Rightarrow>
     (case pc_df_of (self w) of
        Inl e \<Rightarrow> (Inl e, w)
      | Inr pc_df \<Rightarrow>
        if \<not> style_available mpl ''seaborn'' then (Inl OSError, w)
        else
          let (fig, w1) = plt_subplots (width, height) (Some ''seaborn'') w in
     (case sns_scatterplot pc_df (''PC '' @ str_int PC_x) (''PC '' @ str_int PC_y) hue style of
        Inl e \<Rightarrow> (Inl e, w1)
      | Inr art \<Rightarrow>
          let w2 = gcf_update (\<lambda>f. f\<lparr>scatters := scatters f @ [art]\<rparr>) w1;
              w3 = gcf_update
                     (\<lambda>f. f\<lparr>legend := Some \<lparr>frameon = True, fancybox = True,
                                              facecolor = ''white''\<rparr>\<rparr>) w2 in
     (case py_getitem expl_var (PC_x - 1) of
        Inl e \<Rightarrow> (Inl e, w3)
      | Inr vx \<Rightarrow>
          let w4 = gcf_update
                     (\<lambda>f. f\<lparr>xlabel := Some \<lparr>text_of = [PyStr (''PC '' @ str_int PC_x @ '' (''),
                                                        PyFloat vx, PyStr '' % of variance)''],
                                             fontsize = None\<rparr>\<rparr>) w3 in
     (case py_getitem expl_var (PC_y - 1) of
        Inl e \<Rightarrow> (Inl e, w4)
      | Inr vy \<Rightarrow>
          let w5 = gcf_update
                     (\<lambda>f. f\<lparr>ylabel := Some \<lparr>text_of = [PyStr (''PC '' @ str_int PC_y @ '' (''),
                                                        PyFloat vy, PyStr '' % of variance)''],
                                             fontsize = None\<rparr>\<rparr>) w4 in
          if label then
            (case point_texts pc_df (''PC '' @ str_int PC_x) (''PC '' @ str_int PC_y) of
               Inl e \<Rightarrow> (Inl e, w5)
             | Inr ts \<Rightarrow> (Inr fig, gcf_update (\<lambda>f. f\<lparr>texts := texts f @ ts\<rparr>) w5))
          else (Inr fig, w5))))))"

section \<open>\<open>PCA_Model.loadings_plot\<close>\<close>

text \<open>
  The method reads \<open>self.dataset[0]\<close> three times, for the retention-time axis, the
  drift-time axis and the axis label. Nothing changes the dataset in between, so the model
  reads the first spectrum once.
\<close>

definition rt_ticks_of :: "real list \<Rightarrow> real list \<Rightarrow> error + pyval list" where
  "rt_ticks_of ret ylocs =
     list_comp
       (\<lambda>i. case py_getitem ret (py_int i) of
               Inl e \<Rightarrow> Inl e
             | Inr v \<Rightarrow> Inr (PyInt (py_round v)))
       (slice_1_m1 ylocs)"

definition dt_ticks_of :: "real list \<Rightarrow> real list \<Rightarrow> error + pyval list" where
  "dt_ticks_of drift xlocs =
     list_comp
       (\<lambda>i. case py_getitem drift (py_int i) of
               Inl e \<Rightarrow> Inl e
             | Inr v \<Rightarrow> Inr (PyFloat (py_round_nd v 1)))
       (slice_1_m1 xlocs)"

definition loadings_plot ::
  "numpy \<Rightarrow> matplotlib \<Rightarrow> int \<Rightarrow> real \<Rightarrow> real \<Rightarrow> real \<Rightarrow> world
     \<Rightarrow> (error + nat) \<times> world" where
  "loadings_plot np mpl PC color_range width height w =
     (case Dataset_getitem (dataset (self w)) 0 of
        Inl e \<Rightarrow> (Inl e, w)
      | Inr s0 \<Rightarrow>
          let ret = ret_time s0; drift = drift_time s0 in
     (case np_getrow np (loadings (self w)) (PC - 1) of
        Inl e \<Rightarrow> (Inl e, w)
      | Inr v \<Rightarrow>
     (case np_reshape v (length ret) (length drift) of
        Inl e \<Rightarrow> (Inl e, w)
      | Inr loading_pc \<Rightarrow>
          let (fig, w1) = plt_subplots (width, height) None w;
              w2 = gcf_update
                     (\<lambda>f. f\<lparr>imshows := imshows f @
                                [\<lparr>img = loading_pc, origin = ''lower'', aspect = ''auto'',
                                  cmap = ''RdBu_r'', vmin = - color_range,
                                  vmax = color_range\<rparr>]\<rparr>) w1;
              w3 = gcf_update (\<lambda>f. f\<lparr>colorbar := True\<rparr>) w2;
              xlocs = auto_xticks mpl (gcf w3);
              ylocs = auto_yticks mpl (gcf w3) in
     (case rt_ticks_of ret ylocs of
        Inl e \<Rightarrow> (Inl e, w3)
      | Inr rt_ticks \<Rightarrow>
     (case dt_ticks_of drift xlocs of
        Inl e \<Rightarrow> (Inl e, w3)
      | Inr dt_ticks \<Rightarrow>
          let w4 = gcf_update (\<lambda>f. f\<lparr>xticks := Some (slice_1_m1 xlocs, dt_ticks)\<rparr>) w3;
              w5 = gcf_update (\<lambda>f. f\<lparr>yticks := Some (slice_1_m1 ylocs, rt_ticks)\<rparr>) w4;
              w6 = gcf_update (\<lambda>f. f\<lparr>x_minor_locator := Some AutoMinorLocator\<rparr>) w5;
              w7 = gcf_update (\<lambda>f. f\<lparr>y_minor_locator := Some AutoMinorLocator\<rparr>) w6;
              w8 = gcf_update
                     (\<lambda>f. f\<lparr>xlabel := Some \<lparr>text_of = [PyStr (drift_time_label s0)],
                                             fontsize = Some 12\<rparr>\<rparr>) w7;
              w9 = gcf_update
                     (\<lambda>f. f\<lparr>ylabel := Some \<lparr>text_of = [PyStr ''Retention Time [s]''],
                                             fontsize = Some 12\<rparr>\<rparr>) w8;
              w10 = gcf_update
                      (\<lambda>f. f\<lparr>title := Some \<lparr>text_of = [PyStr (''PCA Loadings of PC '' @ str_int PC)],
                                             fontsize = Some 16\<rparr>\<rparr>) w9
          in (Inr fig, w10))))))"

text \<open>
  The figure as it stands after \<open>plt.subplots\<close>, \<open>plt.imshow\<close> and \<open>plt.colorbar\<close>, when
  the automatic tick locations are read.
\<close>

definition heatmap :: "real \<Rightarrow> real \<Rightarrow> ndarray \<Rightarrow> real \<Rightarrow> figure" where
  "heatmap width height loading_pc color_range =
     (new_figure (width, height) None)
       \<lparr>imshows := [\<lparr>img = loading_pc, origin = ''lower'', aspect = ''auto'',
                     cmap = ''RdBu_r'', vmin = - color_range, vmax = color_range\<rparr>],
        colorbar := True\<rparr>"

section \<open>\<open>PCA_Model.scree_plot\<close>\<close>

definition scree_plot ::
  "matplotlib \<Rightarrow> real \<Rightarrow> real \<Rightarrow> string \<Rightarrow> world \<Rightarrow> (error + nat) \<times> world" where
  "scree_plot mpl width height style w =
     (let x = map real [1..<n_components' (pca (self w)) + 1];
          y = explained_variance_ratio' (pca (self w)) in
      if \<not> style_available mpl style then (Inl OSError, w)
      else
        let (fig, w1) = plt_subplots (width, height) (Some style) w;
            w2 = gcf_update (\<lambda>f. f\<lparr>x_major_locator := Some (MaxNLocator True)\<rparr>) w1;
            w3 = gcf_update (\<lambda>f. f\<lparr>y_major_locator := Some (MaxNLocator True)\<rparr>) w2;
            w4 = gcf_update (\<lambda>f. f\<lparr>xticks := Some (x, [])\<rparr>) w3;
            w5 = gcf_update
                   (\<lambda>f. f\<lparr>xlabel := Some \<lparr>text_of = [PyStr ''Principal Component''],
                                           fontsize = Some 12\<rparr>\<rparr>) w4;
            w6 = gcf_update
                   (\<lambda>f. f\<lparr>ylabel := Some \<lparr>text_of = [PyStr ''Explainded variance ratio [%]''],
                                           fontsize = Some 12\<rparr>\<rparr>) w5 in
     (case ax_plot x (np_scale (np_cumsum y) 100) ''cumulative'' of
        Inl e \<Rightarrow> (Inl e, w6)
      | Inr l1 \<Rightarrow>
          let w7 = gcf_update (\<lambda>f. f\<lparr>plots := plots f @ [l1]\<rparr>) w6 in
     (case ax_plot x (np_scale y 100) ''per PC'' of
        Inl e \<Rightarrow> (Inl e, w7)
      | Inr l2 \<Rightarrow>
          let w8 = gcf_update (\<lambda>f. f\<lparr>plots := plots f @ [l2]\<rparr>) w7;
              w9 = gcf_update
                     (\<lambda>f. f\<lparr>legend := Some \<lparr>frameon = True, fancybox = True,
                                              facecolor = ''white''\<rparr>\<rparr>) w8
          in (Inr fig, w9))))"

section \<open>Collaborator contracts and a worked example\<close>

text \<open>
  The shapes scikit-learn documents for a fitted \<open>PCA\<close>, given a proper matrix: when an
  integer number of components is requested, that many are kept; \<open>components_\<close> is an
  array with one row per component and one column per feature; \<open>transform\<close> returns an
  array with one row per sample and one column per component.
\<close>

definition sklearn_shapes :: "sklearn \<Rightarrow> bool" where
  "sklearn_shapes sk \<longleftrightarrow>
     (\<forall>kw x p. ndarray_ok x \<longrightarrow> PCA_fit sk kw x = Inr p \<longrightarrow>
        (\<forall>k. n_components kw = Some k \<longrightarrow> n_components' p = k) \<and>
        shape0 (components' p) = n_components' p \<and>
        shape1 (components' p) = shape1 x \<and>
        ndarray_ok (components' p) \<and>
        (\<forall>s. PCA_transform sk p x = Inr s \<longrightarrow>
           shape0 s = shape0 x \<and> shape1 s = n_components' p \<and> ndarray_ok s))"

text \<open>
  Modelled from the spec: given a proper matrix, the scaling collaborator returns a
  scaled matrix of the same shape and a per-feature weight vector.
\<close>

definition scaler_shapes :: "scaler \<Rightarrow> bool" where
  "scaler_shapes scale \<longleftrightarrow>
     (\<forall>x sm x' w. ndarray_ok x \<longrightarrow> scale x sm = Inr (x', w) \<longrightarrow>
        shape0 x' = shape0 x \<and> shape1 x' = shape1 x \<and> ndarray_ok x' \<and>
        length w = shape1 x)"

text \<open>
  What a fitted model offers the score table of \<open>scatter_plot\<close>: a ratio for every
  component, one score column per component, and one sample identifier and one label per
  row of scores.
\<close>

definition score_table_ok :: "PCA_Model \<Rightarrow> bool" where
  "score_table_ok m \<longleftrightarrow>
     n_components' (pca m) \<le> length (explained_variance_ratio' (pca m)) \<and>
     shape1 (pc m) = n_components' (pca m) \<and>
     length (samples (dataset m)) = shape0 (pc m) \<and>
     length (labels (dataset m)) = shape0 (pc m)"

text \<open>
  Stand-ins for the collaborators, used to run the model on concrete inputs. They meet
  the shape contracts; their numbers are arbitrary.
\<close>

definition toy_sk :: sklearn where
  "toy_sk =
     \<lparr>PCA_fit = (\<lambda>kw x.
        let k = (case n_components kw of Some k \<Rightarrow> k | None \<Rightarrow> min (shape0 x) (shape1 x))
        in Inr \<lparr>n_components' = k,
                explained_variance_ratio' = map (\<lambda>i. 2 / 3 ^ (i + 1)) [0..<k],
                components' = \<lparr>shape0 = k, shape1 = shape1 x,
                                rows = map (\<lambda>i. map (\<lambda>j. real (i + 2 * j)) [0..<shape1 x]) [0..<k]\<rparr>\<rparr>),
      PCA_transform = (\<lambda>p x.
        Inr \<lparr>shape0 = shape0 x, shape1 = n_components' p,
             rows = map (\<lambda>r. take (n_components' p) (r @ replicate (n_components' p) 0))
                      (rows x)\<rparr>)\<rparr>"

definition toy_scale :: scaler where
  "toy_scale x sm = Inr (x, map (\<lambda>j. real (j + 1)) [0..<shape1 x])"

definition toy_mpl :: matplotlib where
  "toy_mpl =
     \<lparr>style_available = (\<lambda>s. s = ''seaborn''),
      auto_xticks = (\<lambda>f. [-1, 0, 1, 2, 3]),
      auto_yticks = (\<lambda>f. [-0.5, 0, 0.5, 1, 1.5])\<rparr>"

definition toy_np :: numpy where
  "toy_np = \<lparr>intp_error = (\<lambda>i. if 2 ^ 63 \<le> i \<and> i < 2 ^ 64 then OverflowError else IndexError)\<rparr>"

definition ex_spectrum :: Spectrum where
  "ex_spectrum =
     \<lparr>ret_time = [10.4, 20.5], drift_time = [1.04, 1.16, 1.26],
      drift_time_label = ''Drift Time [ms]''\<rparr>"

definition ex_dataset :: Dataset where
  "ex_dataset =
     \<lparr>name = ''demo'', samples = [''a'', ''b''], labels = [''x'', ''y''],
      features = \<lparr>shape0 = 2, shape1 = 6, rows = [[1, 2, 3, 4, 5, 6], [2, 3, 4, 5, 6, 7]]\<rparr>,
      spectra = [ex_spectrum, ex_spectrum]\<rparr>"

definition ex_model :: PCA_Model where
  "ex_model =
     \<lparr>dataset = ex_dataset, scaling_method = Some ''auto'',
      X = \<lparr>shape0 = 2, shape1 = 6, rows = [[1, 2, 3, 4, 5, 6], [2, 3, 4, 5, 6, 7]]\<rparr>,
      weights = [1, 2, 3, 4, 5, 6],
      pca = \<lparr>n_components' = 2, explained_variance_ratio' = [2 / 3, 2 / 9],
             components' = \<lparr>shape0 = 2, shape1 = 6,
                             rows = [[0, 2, 4, 6, 8, 10], [1, 3, 5, 7, 9, 11]]\<rparr>\<rparr>,
      pc = \<lparr>shape0 = 2, shape1 = 2, rows = [[1, 2], [2, 3]]\<rparr>,
      loadings = \<lparr>shape0 = 2, shape1 = 6,
                  rows = [[0, 1, 4 / 3, 3 / 2, 8 / 5, 5 / 3],
                          [1, 3 / 2, 5 / 3, 7 / 4, 9 / 5, 11 / 6]]\<rparr>\<rparr>"

definition ex_world :: world where
  "ex_world = \<lparr>self = ex_model, figs = []\<rparr>"

definition ex_world_bad :: world where
  "ex_world_bad =
     \<lparr>self = ex_model\<lparr>dataset := ex_dataset\<lparr>spectra := [ex_spectrum\<lparr>ret_time := [1, 2, 3]\<rparr>]\<rparr>\<rparr>,
      figs = []\<rparr>"

definition ds_10x50 :: Dataset where
  "ds_10x50 =
     \<lparr>name = ''scenario'', samples = map (\<lambda>i. ''s'' @ str_int (int i)) [0..<10],
      labels = map (\<lambda>i. if i < 5 then ''A'' else ''B'') [0..<10],
      features = \<lparr>shape0 = 10, shape1 = 50, rows = replicate 10 (replicate 50 1)\<rparr>,
      spectra = []\<rparr>"

section \<open>Auxiliary facts\<close>

lemma py_index_Inr: "py_index n i = Inr k \<longleftrightarrow> (0 \<le> i \<and> i < int n \<and> k = nat i) \<or> (i < 0 \<and> - int n \<le> i \<and> k = nat (int n + i))"
  by (auto simp: py_index_def Let_def)

lemma py_index_Inl: "py_index n i = Inl e \<longleftrightarrow> e = IndexError \<and> (int n \<le> i \<or> i < - int n)"
  by (auto simp: py_index_def Let_def)

lemma gcf_update_snoc [simp]:
  "gcf_update g (w\<lparr>figs := fs @ [f]\<rparr>) = w\<lparr>figs := fs @ [g f]\<rparr>"
  by (simp add: gcf_update_def)

lemma gcf_snoc [simp]: "gcf (w\<lparr>figs := fs @ [f]\<rparr>) = f"
  by (simp add: gcf_def)

lemma plt_subplots_eq [simp]:
  "plt_subplots sz sty w = (length (figs w), w\<lparr>figs := figs w @ [new_figure sz sty]\<rparr>)"
  by (simp add: plt_subplots_def)

lemma loadings_plot_Inr:
  assumes "loadings_plot np mpl PC cr wd ht w = (Inr fig, w')"
  shows "\<exists>s v lp rt dt.
           Dataset_getitem (dataset (self w)) 0 = Inr s \<and>
           np_getrow np (loadings (self w)) (PC - 1) = Inr v \<and>
           np_reshape v (length (ret_time s)) (length (drift_time s)) = Inr lp \<and>
           rt_ticks_of (ret_time s) (auto_yticks mpl (heatmap wd ht lp cr)) = Inr rt \<and>
           dt_ticks_of (drift_time s) (auto_xticks mpl (heatmap wd ht lp cr)) = Inr dt \<and>
           fig = length (figs w) \<and>
           w' = w\<lparr>figs := figs w @
                  [(heatmap wd ht lp cr)
                     \<lparr>xticks := Some (slice_1_m1 (auto_xticks mpl (heatmap wd ht lp cr)), dt),
                      yticks := Some (slice_1_m1 (auto_yticks mpl (heatmap wd ht lp cr)), rt),
                      x_minor_locator := Some AutoMinorLocator,
                      y_minor_locator := Some AutoMinorLocator,
                      xlabel := Some \<lparr>text_of = [PyStr (drift_time_label s)], fontsize = Some 12\<rparr>,
                      ylabel := Some \<lparr>text_of = [PyStr ''Retention Time [s]''], fontsize = Some 12\<rparr>,
                      title := Some \<lparr>text_of = [PyStr (''PCA Loadings of PC '' @ str_int PC)],
                                     fontsize = Some 16\<rparr>\<rparr>]\<rparr>"
  using assms
  by (auto simp: loadings_plot_def Let_def heatmap_def new_figure_def split: sum.splits)

lemma loadings_plot_steps:
  assumes "Dataset_getitem (dataset (self w)) 0 = Inr s"
    and "np_getrow np (loadings (self w)) (PC - 1) = Inr v"
    and "np_reshape v (length (ret_time s)) (length (drift_time s)) = Inr lp"
    and "rt_ticks_of (ret_time s) (auto_yticks mpl (heatmap wd ht lp cr)) = Inr rt"
    and "dt_ticks_of (drift_time s) (auto_xticks mpl (heatmap wd ht lp cr)) = Inr dt"
  shows "loadings_plot np mpl PC cr wd ht w =
          (Inr (length (figs w)),
           w\<lparr>figs := figs w @
                  [(heatmap wd ht lp cr)
                     \<lparr>xticks := Some (slice_1_m1 (auto_xticks mpl (heatmap wd ht lp cr)), dt),
                      yticks := Some (slice_1_m1 (auto_yticks mpl (heatmap wd ht lp cr)), rt),
                      x_minor_locator := Some AutoMinorLocator,
                      y_minor_locator := Some AutoMinorLocator,
                      xlabel := Some \<lparr>text_of = [PyStr (drift_time_label s)], fontsize = Some 12\<rparr>,
                      ylabel := Some \<lparr>text_of = [PyStr ''Retention Time [s]''], fontsize = Some 12\<rparr>,
                      title := Some \<lparr>text_of = [PyStr (''PCA Loadings of PC '' @ str_int PC)],
                                     fontsize = Some 16\<rparr>\<rparr>]\<rparr>)"
  using assms
  by (simp add: loadings_plot_def Let_def heatmap_def new_figure_def)

lemma loadings_plot_frame:
  "self (snd (loadings_plot np mpl PC cr wd ht w)) = self w \<and>
   take (length (figs w)) (figs (snd (loadings_plot np mpl PC cr wd ht w))) = figs w \<and>
   (\<forall>fig. fst (loadings_plot np mpl PC cr wd ht w) = Inr fig \<longrightarrow>
      fig = length (figs w) \<and>
      length (figs (snd (loadings_plot np mpl PC cr wd ht w))) = Suc (length (figs w)))"
  by (auto simp: loadings_plot_def Let_def split: sum.splits)

lemma scree_plot_frame:
  "self (snd (scree_plot mpl wd ht sty w)) = self w \<and>
   take (length (figs w)) (figs (snd (scree_plot mpl wd ht sty w))) = figs w \<and>
   (\<forall>fig. fst (scree_plot mpl wd ht sty w) = Inr fig \<longrightarrow>
      fig = length (figs w) \<and>
      length (figs (snd (scree_plot mpl wd ht sty w))) = Suc (length (figs w)))"
  by (auto simp: scree_plot_def Let_def split: sum.splits)

lemma scatter_plot_frame:
  "self (snd (scatter_plot mpl px py wd ht hue sty lab w)) = self w \<and>
   take (length (figs w)) (figs (snd (scatter_plot mpl px py wd ht hue sty lab w))) = figs w \<and>
   (\<forall>fig. fst (scatter_plot mpl px py wd ht hue sty lab w) = Inr fig \<longrightarrow>
      fig = length (figs w) \<and>
      length (figs (snd (scatter_plot mpl px py wd ht hue sty lab w))) = Suc (length (figs w)))"
  by (auto simp: scatter_plot_def Let_def split: sum.splits)


lemma str_nat_digit: "n < 10 \<Longrightarrow> str_nat n = [digit_char n]"
  by (simp add: str_nat.simps)

lemma str_nat_step:
  "\<not> n < 10 \<Longrightarrow> str_nat n = str_nat (n div 10) @ [digit_char (n mod 10)]"
  by (subst str_nat.simps) simp

lemma str_nat_nonempty: "str_nat n \<noteq> []"
  by (subst str_nat.simps) simp

lemma of_char_digit_char: "d < 10 \<Longrightarrow> (of_char (digit_char d) :: nat) = 48 + d"
proof -
  assume d: "d < 10"
  have "(of_char (digit_char d) :: nat) = (48 + d) mod 256"
    unfolding digit_char_def by (rule of_char_of)
  also from d have "\<dots> = 48 + d" by simp
  finally show ?thesis .
qed

lemma digit_char_inj:
  assumes "a < 10" "b < 10" "digit_char a = digit_char b"
  shows "a = b"
proof -
  from assms(3) have "(of_char (digit_char a) :: nat) = of_char (digit_char b)" by simp
  with assms(1,2) show ?thesis by (simp add: of_char_digit_char)
qed

lemma digit_char_not_minus: "d < 10 \<Longrightarrow> digit_char d \<noteq> CHR ''-''"
proof
  assume d: "d < 10" and "digit_char d = CHR ''-''"
  then have "(of_char (digit_char d) :: nat) = of_char (CHR ''-'')" by simp
  with d show False by (simp add: of_char_digit_char)
qed

lemma str_nat_inj: "str_nat a = str_nat b \<Longrightarrow> a = b"
proof (induction a arbitrary: b rule: str_nat.induct)
  case (1 n)
  show ?case
  proof (cases "n < 10")
    case True
    note n = this
    show ?thesis
    proof (cases "b < 10")
      case True
      with n "1.prems" show ?thesis
        by (simp add: str_nat_digit digit_char_inj)
    next
      case False
      with n "1.prems" have "[digit_char n] = str_nat (b div 10) @ [digit_char (b mod 10)]"
        by (simp add: str_nat_digit str_nat_step)
      then show ?thesis using str_nat_nonempty [of "b div 10"] by simp
    qed
  next
    case False
    note n = this
    show ?thesis
    proof (cases "b < 10")
      case True
      with n "1.prems" have "str_nat (n div 10) @ [digit_char (n mod 10)] = [digit_char b]"
        by (simp add: str_nat_digit str_nat_step)
      then show ?thesis using str_nat_nonempty [of "n div 10"] by simp
    next
      case False
      with n "1.prems" have e: "str_nat (n div 10) = str_nat (b div 10)"
        and d: "digit_char (n mod 10) = digit_char (b mod 10)"
        by (simp_all add: str_nat_step)
      from "1.IH" [OF n e] have q: "n div 10 = b div 10" .
      from d have r: "n mod 10 = b mod 10" by (intro digit_char_inj) simp_all
      from q r show ?thesis by (metis div_mult_mod_eq)
    qed
  qed
qed

lemma str_nat_hd_not_minus: "hd (str_nat n) \<noteq> CHR ''-''"
proof (induction n rule: str_nat.induct)
  case (1 n)
  show ?case
  proof (cases "n < 10")
    case True
    then show ?thesis by (simp add: str_nat_digit digit_char_not_minus)
  next
    case False
    with 1 show ?thesis
      by (simp add: str_nat_step str_nat_nonempty)
  qed
qed

lemma str_int_inj: "str_int a = str_int b \<Longrightarrow> a = b"
proof -
  assume e: "str_int a = str_int b"
  have neg: False if "i < 0" "\<not> j < 0" "str_int i = str_int j" for i j
  proof -
    from that have "CHR ''-'' # str_nat (nat (- i)) = str_nat (nat j)"
      by (simp add: str_int_def)
    then have "hd (str_nat (nat j)) = CHR ''-''" by (metis list.sel(1))
    with str_nat_hd_not_minus show False by blast
  qed
  show ?thesis
  proof (cases "a < 0")
    case True
    note a = this
    show ?thesis
    proof (cases "b < 0")
      case True
      with a e have "str_nat (nat (- a)) = str_nat (nat (- b))" by (simp add: str_int_def)
      then have "nat (- a) = nat (- b)" by (rule str_nat_inj)
      with a True show ?thesis by simp
    next
      case False
      with a e neg show ?thesis by blast
    qed
  next
    case False
    note a = this
    show ?thesis
    proof (cases "b < 0")
      case True
      with a e neg [of b a] show ?thesis by simp
    next
      case False
      with a e have "str_nat (nat a) = str_nat (nat b)" by (simp add: str_int_def)
      then have "nat a = nat b" by (rule str_nat_inj)
      with a False show ?thesis by simp
    qed
  qed
qed

lemma list_comp_Inr:
  "list_comp f xs = Inr ys \<Longrightarrow>
     length ys = length xs \<and> (\<forall>k<length xs. f (xs ! k) = Inr (ys ! k))"
proof (induction xs arbitrary: ys)
  case Nil
  then show ?case by simp
next
  case (Cons x xs)
  from Cons.prems obtain y ys' where y: "f x = Inr y" and r: "list_comp f xs = Inr ys'"
    and ys: "ys = y # ys'"
    by (auto split: sum.splits)
  from Cons.IH [OF r] have "length ys' = length xs"
    and "\<forall>k<length xs. f (xs ! k) = Inr (ys' ! k)" by simp_all
  with y ys show ?case by (auto simp: nth_Cons split: nat.splits)
qed

lemma list_comp_total:
  "(\<forall>x\<in>set xs. \<exists>y. f x = Inr y) \<Longrightarrow> \<exists>ys. list_comp f xs = Inr ys"
  by (induction xs) auto

section \<open>Construction\<close>

lemma PCA_Model_init_scaling_method:
  assumes "PCA_Model_init sk scale ds sm kw = Inr m"
  shows "scaling_method m = sm"
  using assms
  by (auto simp: PCA_Model_init_def BaseModel_init_def split: sum.splits prod.splits if_splits)


lemma PCA_Model_init_Inr:
  assumes "PCA_Model_init sk scale ds sm kw = Inr m"
  shows "\<exists>x w. scale (features ds) sm = Inr (x, w) \<and> X m = x \<and> weights m = w \<and>
           dataset m = ds \<and> scaling_method m = sm \<and>
           PCA_fit sk kw x = Inr (pca m) \<and> PCA_transform sk (pca m) x = Inr (pc m)"
  using assms
  by (auto simp: PCA_Model_init_def BaseModel_init_def
           split: sum.splits prod.splits if_splits)

lemma np_divide_same_length:
  "length w = shape1 a \<Longrightarrow> np_divide a w = Inr (a\<lparr>rows := map (\<lambda>r. map2 (/) r w) (rows a)\<rparr>)"
  by (simp add: np_divide_def)

lemma toy_sk_shapes: "sklearn_shapes toy_sk"
  by (auto simp: sklearn_shapes_def toy_sk_def Let_def ndarray_ok_def list_all_iff
           split: option.splits)

lemma toy_scale_shapes: "scaler_shapes toy_scale"
  by (auto simp: scaler_shapes_def toy_scale_def)

lemma ndarray_ok_divide:
  assumes "ndarray_ok a" and "length w = shape1 a"
  shows "ndarray_ok (a\<lparr>rows := map (\<lambda>r. map2 (/) r w) (rows a)\<rparr>)"
  using assms by (simp add: ndarray_ok_def list_all_iff)

lemma PCA_Model_init_steps:
  assumes "scale (features ds) sm = Inr (x, w)" and "PCA_fit sk kw x = Inr p"
    and "PCA_transform sk p x = Inr s"
  shows "PCA_Model_init sk scale ds sm kw =
           (if sm \<noteq> None \<and> sm \<noteq> Some ''standard'' then
              (case np_divide (components' p) w of
                 Inl e \<Rightarrow> Inl e
               | Inr l \<Rightarrow> Inr \<lparr>dataset = ds, scaling_method = sm, X = x, weights = w,
                               pca = p, pc = s, loadings = l\<rparr>)
            else Inr \<lparr>dataset = ds, scaling_method = sm, X = x, weights = w,
                      pca = p, pc = s, loadings = components' p\<rparr>)"
  using assms by (simp add: PCA_Model_init_def BaseModel_init_def split: sum.splits)

lemma toy_init_total:
  "\<exists>m. PCA_Model_init toy_sk toy_scale ds (Some ''auto'') kw = Inr m"
  by (simp add: PCA_Model_init_def BaseModel_init_def toy_sk_def toy_scale_def
        np_divide_def Let_def)

lemma ex_init:
  "PCA_Model_init toy_sk toy_scale ex_dataset (Some ''auto'') \<lparr>n_components = Some 2\<rparr>
     = Inr ex_model"
  by (simp add: PCA_Model_init_def BaseModel_init_def toy_sk_def toy_scale_def
        np_divide_def Let_def ex_dataset_def ex_model_def upt_rec numeral_2_eq_2)

lemma ex_init_standard:
  "PCA_Model_init toy_sk toy_scale ex_dataset (Some ''standard'') \<lparr>n_components = Some 2\<rparr>
     = Inr (ex_model\<lparr>scaling_method := Some ''standard'',
                     loadings := components' (pca ex_model)\<rparr>)"
  by (simp add: PCA_Model_init_def BaseModel_init_def toy_sk_def toy_scale_def
        Let_def ex_dataset_def ex_model_def upt_rec numeral_2_eq_2)

lemma ex_init_none:
  "PCA_Model_init toy_sk toy_scale ex_dataset None \<lparr>n_components = Some 2\<rparr>
     = Inr (ex_model\<lparr>scaling_method := None, loadings := components' (pca ex_model)\<rparr>)"
  by (simp add: PCA_Model_init_def BaseModel_init_def toy_sk_def toy_scale_def
        Let_def ex_dataset_def ex_model_def upt_rec numeral_2_eq_2)

text \<open>
  C1. At construction, when the scaling method is neither \<open>None\<close> nor \<open>'standard'\<close>, the
  stored loadings are the result of dividing the fitted component vectors by the weight
  vector, which for a weight vector with one entry per feature is the element-wise
  quotient of every component row by the weights; when the scaling method is \<open>None\<close> or
  \<open>'standard'\<close>, the stored loadings are the fitted component vectors unchanged.
\<close>

theorem init_loadings:
  assumes "PCA_Model_init sk scale ds sm kw = Inr m"
  shows "(sm \<noteq> None \<and> sm \<noteq> Some ''standard'' \<longrightarrow>
            np_divide (components' (pca m)) (weights m) = Inr (loadings m) \<and>
            (length (weights m) = shape1 (components' (pca m)) \<longrightarrow>
               loadings m = (components' (pca m))
                 \<lparr>rows := map (\<lambda>r. map2 (/) r (weights m)) (rows (components' (pca m)))\<rparr>)) \<and>
         (sm = None \<or> sm = Some ''standard'' \<longrightarrow> loadings m = components' (pca m))"
  using assms
  by (auto simp: PCA_Model_init_def BaseModel_init_def np_divide_same_length
           split: sum.splits prod.splits if_splits)

theorem init_loadings_witness:
  "PCA_Model_init toy_sk toy_scale ex_dataset (Some ''auto'') \<lparr>n_components = Some 2\<rparr>
     = Inr ex_model \<and>
   rows (components' (pca ex_model)) = [[0, 2, 4, 6, 8, 10], [1, 3, 5, 7, 9, 11]] \<and>
   weights ex_model = [1, 2, 3, 4, 5, 6] \<and>
   rows (loadings ex_model) =
     [[0, 1, 4 / 3, 3 / 2, 8 / 5, 5 / 3], [1, 3 / 2, 5 / 3, 7 / 4, 9 / 5, 11 / 6]] \<and>
   PCA_Model_init toy_sk toy_scale ex_dataset (Some ''standard'') \<lparr>n_components = Some 2\<rparr>
     = Inr (ex_model\<lparr>scaling_method := Some ''standard'',
                     loadings := components' (pca ex_model)\<rparr>) \<and>
   PCA_Model_init toy_sk toy_scale ex_dataset None \<lparr>n_components = Some 2\<rparr>
     = Inr (ex_model\<lparr>scaling_method := None, loadings := components' (pca ex_model)\<rparr>)"
  using init_loadings [OF ex_init] init_loadings [OF ex_init_standard]
    init_loadings [OF ex_init_none] ex_init ex_init_standard ex_init_none
  by (simp add: ex_model_def)

text \<open>
  C6. For a dataset whose feature matrix is a proper 10 by 50 array, constructed with
  scaling method \<open>'auto'\<close> and \<open>n_components = 3\<close>, and collaborators that keep their
  documented shapes: construction succeeds whenever the scaler, the fit and the
  transform return, and every model it yields holds the fitted object and the scores of
  those very calls, with \<open>n_components_ = 3\<close>, a score matrix of 10 rows of 3 entries and
  a loadings matrix of 3 rows of 50 entries, each loadings row being a component row
  divided element-wise by the 50 weights.
\<close>

theorem init_shapes:
  assumes sk: "sklearn_shapes sk" and sc: "scaler_shapes scale"
    and ok: "ndarray_ok (features ds)"
    and f0: "shape0 (features ds) = 10" and f1: "shape1 (features ds) = 50"
    and kw: "n_components kw = Some 3"
  shows "(\<forall>x w p s. scale (features ds) (Some ''auto'') = Inr (x, w) \<and>
                    PCA_fit sk kw x = Inr p \<and> PCA_transform sk p x = Inr s \<longrightarrow>
            (\<exists>m. PCA_Model_init sk scale ds (Some ''auto'') kw = Inr m)) \<and>
         (\<forall>m. PCA_Model_init sk scale ds (Some ''auto'') kw = Inr m \<longrightarrow>
            (\<exists>x w. scale (features ds) (Some ''auto'') = Inr (x, w) \<and>
                   X m = x \<and> weights m = w \<and>
                   PCA_fit sk kw x = Inr (pca m) \<and>
                   PCA_transform sk (pca m) x = Inr (pc m)) \<and>
            loadings m = (components' (pca m))
              \<lparr>rows := map (\<lambda>r. map2 (/) r (weights m)) (rows (components' (pca m)))\<rparr> \<and>
            n_components' (pca m) = 3 \<and>
            shape0 (pc m) = 10 \<and> shape1 (pc m) = 3 \<and>
            length (rows (pc m)) = 10 \<and> list_all (\<lambda>r. length r = 3) (rows (pc m)) \<and>
            shape0 (loadings m) = 3 \<and> shape1 (loadings m) = 50 \<and>
            length (rows (loadings m)) = 3 \<and>
            list_all (\<lambda>r. length r = 50) (rows (loadings m)))"
proof -
  have facts:
    "ndarray_ok x \<and> shape0 x = 10 \<and> shape1 x = 50 \<and> length w = 50 \<and>
     n_components' p = 3 \<and> shape0 (components' p) = 3 \<and> shape1 (components' p) = 50 \<and>
     ndarray_ok (components' p) \<and>
     (\<forall>s. PCA_transform sk p x = Inr s \<longrightarrow> shape0 s = 10 \<and> shape1 s = 3 \<and> ndarray_ok s)"
    if scale: "scale (features ds) (Some ''auto'') = Inr (x, w)"
      and fit: "PCA_fit sk kw x = Inr p" for x w p
  proof -
    from sc ok scale have x: "shape0 x = shape0 (features ds)" "shape1 x = shape1 (features ds)"
      "ndarray_ok x" and lw: "length w = shape1 (features ds)"
      unfolding scaler_shapes_def by blast+
    from sk x(3) fit have n: "\<forall>k. n_components kw = Some k \<longrightarrow> n_components' p = k"
      and c0: "shape0 (components' p) = n_components' p"
      and c1: "shape1 (components' p) = shape1 x"
      and cok: "ndarray_ok (components' p)"
      and t: "\<forall>s. PCA_transform sk p x = Inr s \<longrightarrow>
                shape0 s = shape0 x \<and> shape1 s = n_components' p \<and> ndarray_ok s"
      unfolding sklearn_shapes_def by blast+
    from n kw have n3: "n_components' p = 3" by simp
    from x lw n3 c0 c1 cok t f0 f1 show ?thesis by simp
  qed
  have total: "\<exists>m. PCA_Model_init sk scale ds (Some ''auto'') kw = Inr m"
    if scale: "scale (features ds) (Some ''auto'') = Inr (x, w)"
      and fit: "PCA_fit sk kw x = Inr p" and tr: "PCA_transform sk p x = Inr s" for x w p s
  proof -
    from facts [OF scale fit] have "length w = shape1 (components' p)" by simp
    then show ?thesis
      by (simp add: PCA_Model_init_steps [where scale = scale and ds = ds, OF scale fit tr]
            np_divide_same_length)
  qed
  have props: "(\<exists>x w. scale (features ds) (Some ''auto'') = Inr (x, w) \<and>
                   X m = x \<and> weights m = w \<and>
                   PCA_fit sk kw x = Inr (pca m) \<and>
                   PCA_transform sk (pca m) x = Inr (pc m)) \<and>
            loadings m = (components' (pca m))
              \<lparr>rows := map (\<lambda>r. map2 (/) r (weights m)) (rows (components' (pca m)))\<rparr> \<and>
            n_components' (pca m) = 3 \<and>
            shape0 (pc m) = 10 \<and> shape1 (pc m) = 3 \<and>
            length (rows (pc m)) = 10 \<and> list_all (\<lambda>r. length r = 3) (rows (pc m)) \<and>
            shape0 (loadings m) = 3 \<and> shape1 (loadings m) = 50 \<and>
            length (rows (loadings m)) = 3 \<and>
            list_all (\<lambda>r. length r = 50) (rows (loadings m))"
    if init: "PCA_Model_init sk scale ds (Some ''auto'') kw = Inr m" for m
  proof -
    from PCA_Model_init_Inr [OF init] obtain x w where
      scale: "scale (features ds) (Some ''auto'') = Inr (x, w)"
      and xm: "X m = x" and w: "weights m = w"
      and fit: "PCA_fit sk kw x = Inr (pca m)"
      and tr: "PCA_transform sk (pca m) x = Inr (pc m)"
      by blast
    note f = facts [OF scale fit]
    from f tr have pcs: "shape0 (pc m) = 10" "shape1 (pc m) = 3" "ndarray_ok (pc m)" by simp_all
    from f have lw: "length w = shape1 (components' (pca m))" by simp
    have "np_divide (components' (pca m)) (weights m) = Inr (loadings m)"
      using init
      by (auto simp: PCA_Model_init_def BaseModel_init_def
               split: sum.splits prod.splits if_splits)
    with lw w have l: "loadings m = (components' (pca m))
                 \<lparr>rows := map (\<lambda>r. map2 (/) r (weights m)) (rows (components' (pca m)))\<rparr>"
      by (simp add: np_divide_same_length)
    from f lw w have lok: "ndarray_ok ((components' (pca m))
                 \<lparr>rows := map (\<lambda>r. map2 (/) r (weights m)) (rows (components' (pca m)))\<rparr>)"
      by (intro ndarray_ok_divide) simp_all
    have l0: "shape0 (loadings m) = 3" and l1: "shape1 (loadings m) = 50"
      using f by (subst l, simp)+
    from lok have lok': "ndarray_ok (loadings m)" by (simp add: l [symmetric])
    from pcs have pr: "length (rows (pc m)) = 10" "list_all (\<lambda>r. length r = 3) (rows (pc m))"
      by (simp_all add: ndarray_ok_def)
    from lok' l0 l1 have lr: "length (rows (loadings m)) = 3"
      "list_all (\<lambda>r. length r = 50) (rows (loadings m))"
      by (simp_all add: ndarray_ok_def)
    from scale xm w fit tr have ex: "\<exists>x w. scale (features ds) (Some ''auto'') = Inr (x, w) \<and>
                   X m = x \<and> weights m = w \<and>
                   PCA_fit sk kw x = Inr (pca m) \<and>
                   PCA_transform sk (pca m) x = Inr (pc m)"
      by blast
    from f have n3: "n_components' (pca m) = 3" by simp
    show ?thesis
      by (intro conjI ex l n3 pcs(1) pcs(2) pr l0 l1 lr)
  qed
  from total props show ?thesis by blast
qed

lemma ds_10x50_ok:
  "ndarray_ok (features ds_10x50)" "shape0 (features ds_10x50) = 10"
  "shape1 (features ds_10x50) = 50"
  by (simp_all add: ds_10x50_def ndarray_ok_def list_all_iff)

theorem init_shapes_witness:
  "sklearn_shapes toy_sk \<and> scaler_shapes toy_scale \<and>
   ndarray_ok (features ds_10x50) \<and>
   shape0 (features ds_10x50) = 10 \<and> shape1 (features ds_10x50) = 50 \<and>
   (\<exists>m. PCA_Model_init toy_sk toy_scale ds_10x50 (Some ''auto'') \<lparr>n_components = Some 3\<rparr>
           = Inr m \<and>
        n_components' (pca m) = 3 \<and> shape0 (pc m) = 10 \<and> shape1 (pc m) = 3 \<and>
        length (rows (pc m)) = 10 \<and> list_all (\<lambda>r. length r = 3) (rows (pc m)) \<and>
        shape0 (loadings m) = 3 \<and> shape1 (loadings m) = 50 \<and>
        length (rows (loadings m)) = 3 \<and> list_all (\<lambda>r. length r = 50) (rows (loadings m)))"
proof -
  obtain m where
    m: "PCA_Model_init toy_sk toy_scale ds_10x50 (Some ''auto'') \<lparr>n_components = Some 3\<rparr> = Inr m"
    using toy_init_total by blast
  have kw: "n_components \<lparr>n_components = Some 3\<rparr> = Some 3" by simp
  note t = init_shapes [OF toy_sk_shapes toy_scale_shapes ds_10x50_ok kw]
  from t m have "n_components' (pca m) = 3 \<and> shape0 (pc m) = 10 \<and> shape1 (pc m) = 3 \<and>
        length (rows (pc m)) = 10 \<and> list_all (\<lambda>r. length r = 3) (rows (pc m)) \<and>
        shape0 (loadings m) = 3 \<and> shape1 (loadings m) = 50 \<and>
        length (rows (loadings m)) = 3 \<and> list_all (\<lambda>r. length r = 50) (rows (loadings m))"
    by blast
  with m toy_sk_shapes toy_scale_shapes ds_10x50_ok show ?thesis by blast
qed

section \<open>The plot methods\<close>


lemma pd_DataFrame_keys:
  assumes "pd_DataFrame d cols = Inr df"
  shows "map fst (columns df) = cols"
proof -
  from assms have "columns df =
      map (\<lambda>j. (cols ! j, map (\<lambda>r. PyFloat (r ! j)) (rows d))) [0..<length cols]"
    by (auto simp: pd_DataFrame_def split: if_splits)
  then have "map fst (columns df) = map ((!) cols) [0..<length cols]"
    by (simp add: comp_def)
  then show ?thesis by (simp only: map_nth)
qed

lemma df_setitem_keys:
  "df_setitem df k v = Inr df' \<Longrightarrow> fst ` set (columns df') = insert k (fst ` set (columns df))"
  by (force simp: df_setitem_def image_iff split: if_splits)

lemma pc_df_of_keys:
  assumes "pc_df_of m = Inr df"
  shows "fst ` set (columns df) =
           set (pc_names (n_components' (pca m))) \<union> {''Sample'', ''Label''}"
proof -
  from assms obtain d0 d1 where
    a: "pd_DataFrame (pc m) (pc_names (n_components' (pca m))) = Inr d0"
    and b: "df_setitem d0 ''Sample'' (map PyStr (samples (dataset m))) = Inr d1"
    and c: "df_setitem d1 ''Label'' (map PyStr (labels (dataset m))) = Inr df"
    by (auto simp: pc_df_of_def split: sum.splits)
  from pd_DataFrame_keys [OF a] have "fst ` set (columns d0) = set (pc_names (n_components' (pca m)))"
    by (metis set_map)
  with df_setitem_keys [OF b] df_setitem_keys [OF c] show ?thesis by auto
qed

lemma pc_name_mem:
  "''PC '' @ str_int i \<in> set (pc_names n) \<longleftrightarrow> 1 \<le> i \<and> i \<le> int n"
proof
  assume "''PC '' @ str_int i \<in> set (pc_names n)"
  then obtain x where x: "1 \<le> x" "x < n + 1" and e: "''PC '' @ str_int i = ''PC '' @ str_int (int x)"
    by (auto simp: pc_names_def)
  from e have "i = int x" by (simp add: str_int_inj)
  with x show "1 \<le> i \<and> i \<le> int n" by simp
next
  assume a: "1 \<le> i \<and> i \<le> int n"
  then have "nat i \<in> set [1..<n + 1]" by auto
  then have "''PC '' @ str_int (int (nat i)) \<in> set (pc_names n)"
    unfolding pc_names_def by (metis (mono_tags, lifting) image_eqI set_map)
  with a show "''PC '' @ str_int i \<in> set (pc_names n)" by simp
qed

lemma pc_df_of_lookup_None:
  assumes "pc_df_of m = Inr df" and "i < 1 \<or> int (n_components' (pca m)) < i"
  shows "map_of (columns df) (''PC '' @ str_int i) = None"
proof -
  from assms(2) have "\<not> (1 \<le> i \<and> i \<le> int (n_components' (pca m)))" by linarith
  with pc_name_mem have "''PC '' @ str_int i \<notin> set (pc_names (n_components' (pca m)))"
    by blast
  moreover have "''PC '' @ str_int i \<noteq> ''Sample''" "''PC '' @ str_int i \<noteq> ''Label''"
    by simp_all
  ultimately have "''PC '' @ str_int i \<notin> fst ` set (columns df)"
    by (simp add: pc_df_of_keys [OF assms(1)])
  then show ?thesis by (simp add: map_of_eq_None_iff)
qed

lemma scatter_plot_sns_error:
  assumes "expl_var_of (pca (self w)) = Inr ev" and "pc_df_of (self w) = Inr df"
    and "style_available mpl ''seaborn''"
    and "sns_scatterplot df (''PC '' @ str_int PC_x) (''PC '' @ str_int PC_y) hue sty = Inl e"
  shows "fst (scatter_plot mpl PC_x PC_y wd ht hue sty lab w) = Inl e"
  using assms by (simp add: scatter_plot_def)

lemma scatter_plot_out_of_range:
  assumes "PC_x < 1 \<or> int (n_components' (pca (self w))) < PC_x \<or>
           PC_y < 1 \<or> int (n_components' (pca (self w))) < PC_y"
  shows "(\<exists>e. fst (scatter_plot mpl PC_x PC_y wd ht hue sty lab w) = Inl e) \<and>
         (\<forall>ev df. expl_var_of (pca (self w)) = Inr ev \<and> pc_df_of (self w) = Inr df \<and>
                  style_available mpl ''seaborn'' \<longrightarrow>
            fst (scatter_plot mpl PC_x PC_y wd ht hue sty lab w) = Inl ValueError)"
proof -
  have sns: "sns_scatterplot df (''PC '' @ str_int PC_x) (''PC '' @ str_int PC_y) hue sty
               = Inl ValueError"
    if "pc_df_of (self w) = Inr df" for df
  proof -
    from assms have "map_of (columns df) (''PC '' @ str_int PC_x) = None \<or>
                     map_of (columns df) (''PC '' @ str_int PC_y) = None"
      using pc_df_of_lookup_None [OF that, of PC_x] pc_df_of_lookup_None [OF that, of PC_y]
      by argo
    then show ?thesis by (auto simp: sns_scatterplot_def split: option.splits)
  qed
  have second: "fst (scatter_plot mpl PC_x PC_y wd ht hue sty lab w) = Inl ValueError"
    if "expl_var_of (pca (self w)) = Inr ev" "pc_df_of (self w) = Inr df"
       "style_available mpl ''seaborn''" for ev df
    using scatter_plot_sns_error [OF that sns [OF that(2)]] .
  have first: "\<exists>e. fst (scatter_plot mpl PC_x PC_y wd ht hue sty lab w) = Inl e"
  proof (cases "expl_var_of (pca (self w))")
    case (Inl e)
    then show ?thesis by (simp add: scatter_plot_def)
  next
    case ev: (Inr ev)
    show ?thesis
    proof (cases "pc_df_of (self w)")
      case (Inl e)
      with ev show ?thesis by (simp add: scatter_plot_def)
    next
      case df: (Inr df)
      show ?thesis
      proof (cases "style_available mpl ''seaborn''")
        case True
        from second [OF ev df True] show ?thesis by blast
      next
        case False
        with ev df show ?thesis by (simp add: scatter_plot_def)
      qed
    qed
  qed
  from first second show ?thesis by blast
qed

lemma py_getitem_nat: "py_getitem xs (int k) = Inr v \<longleftrightarrow> k < length xs \<and> v = xs ! k"
  by (auto simp: py_getitem_def py_index_def Let_def)

lemma expl_var_of_Inr:
  assumes "expl_var_of p = Inr ev"
  shows "length ev = n_components' p \<and>
         (\<forall>k<n_components' p. k < length (explained_variance_ratio' p) \<and>
            ev ! k = py_round_nd (explained_variance_ratio' p ! k * 100) 1)"
proof -
  let ?f = "\<lambda>i. case py_getitem (explained_variance_ratio' p) (int i - 1) of
               Inl e \<Rightarrow> Inl e
             | Inr v \<Rightarrow> Inr (py_round_nd (v * 100) 1)"
  from assms have lc: "list_comp ?f [1..<n_components' p + 1] = Inr ev"
    by (simp add: expl_var_of_def)
  have L: "length [1..<n_components' p + 1] = n_components' p"
    by (simp del: upt_Suc)
  from list_comp_Inr [OF lc] have len: "length ev = n_components' p"
    and each: "\<forall>k<n_components' p. ?f ([1..<n_components' p + 1] ! k) = Inr (ev ! k)"
    unfolding L by blast+
  have "k < length (explained_variance_ratio' p) \<and>
        ev ! k = py_round_nd (explained_variance_ratio' p ! k * 100) 1"
    if k: "k < n_components' p" for k
  proof -
    from k have "[1..<n_components' p + 1] ! k = k + 1" by (simp del: upt_Suc)
    with each k have "?f (k + 1) = Inr (ev ! k)" by metis
    then obtain v where v: "py_getitem (explained_variance_ratio' p) (int k) = Inr v"
      and e: "ev ! k = py_round_nd (v * 100) 1"
      by (auto split: sum.splits)
    from v e show ?thesis by (simp add: py_getitem_nat)
  qed
  with len show ?thesis by blast
qed

lemma py_getitem_in_range:
  "1 \<le> i \<Longrightarrow> i \<le> int (length xs) \<Longrightarrow> py_getitem xs (i - 1) = Inr (xs ! nat (i - 1))"
  by (auto simp: py_getitem_def py_index_def Let_def)

lemma scatter_plot_Inr:
  assumes "scatter_plot mpl PC_x PC_y wd ht hue sty lab w = (Inr fig, w')"
  shows "\<exists>ev df art vx vy f.
           expl_var_of (pca (self w)) = Inr ev \<and> pc_df_of (self w) = Inr df \<and>
           style_available mpl ''seaborn'' \<and>
           sns_scatterplot df (''PC '' @ str_int PC_x) (''PC '' @ str_int PC_y) hue sty = Inr art \<and>
           py_getitem ev (PC_x - 1) = Inr vx \<and> py_getitem ev (PC_y - 1) = Inr vy \<and>
           fig = length (figs w) \<and> w' = w\<lparr>figs := figs w @ [f]\<rparr> \<and>
           scatters f = [art] \<and>
           xlabel f = Some \<lparr>text_of = [PyStr (''PC '' @ str_int PC_x @ '' (''), PyFloat vx,
                                        PyStr '' % of variance)''], fontsize = None\<rparr> \<and>
           ylabel f = Some \<lparr>text_of = [PyStr (''PC '' @ str_int PC_y @ '' (''), PyFloat vy,
                                        PyStr '' % of variance)''], fontsize = None\<rparr>"
  using assms
  by (auto simp: scatter_plot_def Let_def new_figure_def split: sum.splits if_splits)

lemma scatter_plot_labels:
  assumes ok: "scatter_plot mpl PC_x PC_y wd ht hue sty lab w = (Inr fig, w')"
    and x: "1 \<le> PC_x" "PC_x \<le> int (n_components' (pca (self w)))"
    and y: "1 \<le> PC_y" "PC_y \<le> int (n_components' (pca (self w)))"
  shows "xlabel (figs w' ! fig) =
           Some \<lparr>text_of =
                   [PyStr (''PC '' @ str_int PC_x @ '' (''),
                    PyFloat (py_round_nd
                      (explained_variance_ratio' (pca (self w)) ! nat (PC_x - 1) * 100) 1),
                    PyStr '' % of variance)''],
                 fontsize = None\<rparr> \<and>
         ylabel (figs w' ! fig) =
           Some \<lparr>text_of =
                   [PyStr (''PC '' @ str_int PC_y @ '' (''),
                    PyFloat (py_round_nd
                      (explained_variance_ratio' (pca (self w)) ! nat (PC_y - 1) * 100) 1),
                    PyStr '' % of variance)''],
                 fontsize = None\<rparr>"
proof -
  from scatter_plot_Inr [OF ok] obtain ev vx vy f where
    ev: "expl_var_of (pca (self w)) = Inr ev"
    and vx: "py_getitem ev (PC_x - 1) = Inr vx" and vy: "py_getitem ev (PC_y - 1) = Inr vy"
    and fig: "fig = length (figs w)" and w': "w' = w\<lparr>figs := figs w @ [f]\<rparr>"
    and xl: "xlabel f = Some \<lparr>text_of = [PyStr (''PC '' @ str_int PC_x @ '' (''), PyFloat vx,
                                        PyStr '' % of variance)''], fontsize = None\<rparr>"
    and yl: "ylabel f = Some \<lparr>text_of = [PyStr (''PC '' @ str_int PC_y @ '' (''), PyFloat vy,
                                        PyStr '' % of variance)''], fontsize = None\<rparr>"
    by blast
  from expl_var_of_Inr [OF ev] have len: "length ev = n_components' (pca (self w))"
    and each: "\<forall>k<n_components' (pca (self w)).
                 ev ! k = py_round_nd (explained_variance_ratio' (pca (self w)) ! k * 100) 1"
    by simp_all
  from x len vx have "vx = ev ! nat (PC_x - 1)" by (simp add: py_getitem_in_range)
  with each x have vx': "vx = py_round_nd
                      (explained_variance_ratio' (pca (self w)) ! nat (PC_x - 1) * 100) 1"
    by simp
  from y len vy have "vy = ev ! nat (PC_y - 1)" by (simp add: py_getitem_in_range)
  with each y have vy': "vy = py_round_nd
                      (explained_variance_ratio' (pca (self w)) ! nat (PC_y - 1) * 100) 1"
    by simp
  from fig w' have "figs w' ! fig = f" by simp
  with xl yl vx' vy' show ?thesis by simp
qed


lemma expl_var_of_total:
  assumes "n_components' p \<le> length (explained_variance_ratio' p)"
  shows "\<exists>ev. expl_var_of p = Inr ev"
proof -
  have "\<exists>y. (case py_getitem (explained_variance_ratio' p) (int i - 1) of
               Inl e \<Rightarrow> Inl e
             | Inr v \<Rightarrow> Inr (py_round_nd (v * 100) 1)) = Inr y"
    if "i \<in> set [1..<n_components' p + 1]" for i
  proof -
    from that assms have "1 \<le> int i" "int i \<le> int (length (explained_variance_ratio' p))"
      by auto
    then have "py_getitem (explained_variance_ratio' p) (int i - 1) =
                 Inr (explained_variance_ratio' p ! nat (int i - 1))"
      by (rule py_getitem_in_range)
    then show ?thesis by simp
  qed
  then show ?thesis
    unfolding expl_var_of_def by (intro list_comp_total) blast
qed

lemma pc_df_of_total:
  assumes "shape1 (pc m) = n_components' (pca m)"
    and "length (samples (dataset m)) = shape0 (pc m)"
    and "length (labels (dataset m)) = shape0 (pc m)"
  shows "\<exists>df. pc_df_of m = Inr df"
proof -
  have L: "length (pc_names (n_components' (pca m))) = n_components' (pca m)"
    by (simp add: pc_names_def del: upt_Suc)
  with assms(1) obtain d0 where
    d0: "pd_DataFrame (pc m) (pc_names (n_components' (pca m))) = Inr d0"
    and i0: "index_len d0 = shape0 (pc m)"
    by (simp add: pd_DataFrame_def)
  from i0 assms(2) obtain d1 where
    d1: "df_setitem d0 ''Sample'' (map PyStr (samples (dataset m))) = Inr d1"
    and i1: "index_len d1 = shape0 (pc m)"
    by (simp add: df_setitem_def)
  from i1 assms(3) obtain d2 where
    d2: "df_setitem d1 ''Label'' (map PyStr (labels (dataset m))) = Inr d2"
    by (simp add: df_setitem_def)
  from d0 d1 d2 show ?thesis by (simp add: pc_df_of_def)
qed

lemma map_of_key: "k \<in> fst ` set xs \<Longrightarrow> \<exists>v. map_of xs k = Some v"
  by (cases "map_of xs k") (simp_all add: map_of_eq_None_iff)

lemma scatter_plot_returns:
  assumes ok: "score_table_ok (self w)" and sty: "style_available mpl ''seaborn''"
    and x: "1 \<le> PC_x" "PC_x \<le> int (n_components' (pca (self w)))"
    and y: "1 \<le> PC_y" "PC_y \<le> int (n_components' (pca (self w)))"
    and hue: "hue = ''Label'' \<or> hue = ''Sample''"
    and style: "style = ''Label'' \<or> style = ''Sample''"
  shows "\<exists>w'. scatter_plot mpl PC_x PC_y wd ht hue style lab w = (Inr (length (figs w)), w')"
proof -
  from ok have evl: "n_components' (pca (self w)) \<le> length (explained_variance_ratio' (pca (self w)))"
    and sh: "shape1 (pc (self w)) = n_components' (pca (self w))"
    and sa: "length (samples (dataset (self w))) = shape0 (pc (self w))"
    and la: "length (labels (dataset (self w))) = shape0 (pc (self w))"
    by (simp_all add: score_table_ok_def)
  from expl_var_of_total [OF evl] obtain ev where ev: "expl_var_of (pca (self w)) = Inr ev" ..
  from pc_df_of_total [OF sh sa la] obtain df where df: "pc_df_of (self w) = Inr df" ..
  note keys = pc_df_of_keys [OF df]
  from x pc_name_mem have "''PC '' @ str_int PC_x \<in> set (pc_names (n_components' (pca (self w))))"
    by blast
  then have "''PC '' @ str_int PC_x \<in> fst ` set (columns df)"
    unfolding keys by (rule UnI1)
  from map_of_key [OF this] obtain cx where
    cx: "map_of (columns df) (''PC '' @ str_int PC_x) = Some cx" ..
  from y pc_name_mem have "''PC '' @ str_int PC_y \<in> set (pc_names (n_components' (pca (self w))))"
    by blast
  then have "''PC '' @ str_int PC_y \<in> fst ` set (columns df)"
    unfolding keys by (rule UnI1)
  from map_of_key [OF this] obtain cy where
    cy: "map_of (columns df) (''PC '' @ str_int PC_y) = Some cy" ..
  from hue have "hue \<in> fst ` set (columns df)" unfolding keys by auto
  from map_of_key [OF this] obtain ch where ch: "map_of (columns df) hue = Some ch" ..
  from style have "style \<in> fst ` set (columns df)" unfolding keys by auto
  from map_of_key [OF this] obtain cs where cs: "map_of (columns df) style = Some cs" ..
  have "''Sample'' \<in> fst ` set (columns df)" unfolding keys by simp
  from map_of_key [OF this] obtain csm where
    csm: "map_of (columns df) ''Sample'' = Some csm" ..
  have sns: "sns_scatterplot df (''PC '' @ str_int PC_x) (''PC '' @ str_int PC_y) hue style =
               Inr \<lparr>scatter_x = cx, scatter_y = cy, scatter_hue = ch, scatter_style = cs,
                    scatter_s = 100\<rparr>"
    using cx cy ch cs by (simp add: sns_scatterplot_def)
  have pt: "\<exists>ts. point_texts df (''PC '' @ str_int PC_x) (''PC '' @ str_int PC_y) = Inr ts"
    using cx cy csm by (simp add: point_texts_def)
  then obtain ts where ts: "point_texts df (''PC '' @ str_int PC_x) (''PC '' @ str_int PC_y) = Inr ts" ..
  from expl_var_of_Inr [OF ev] have len: "length ev = n_components' (pca (self w))" by simp
  from x len have gx: "py_getitem ev (PC_x - 1) = Inr (ev ! nat (PC_x - 1))"
    by (simp add: py_getitem_in_range)
  from y len have gy: "py_getitem ev (PC_y - 1) = Inr (ev ! nat (PC_y - 1))"
    by (simp add: py_getitem_in_range)
  show ?thesis
    using sty ev df sns gx gy ts by (simp add: scatter_plot_def Let_def)
qed

text \<open>
  C4. For component indices \<open>PC_x\<close> and \<open>PC_y\<close> in \<open>[1, n_components_]\<close>: whenever
  \<open>scatter_plot\<close> returns a figure, the percentage in its x-axis label is
  \<open>round(explained_variance_ratio_[PC_x - 1] * 100, 1)\<close> and the one in its y-axis label
  is \<open>round(explained_variance_ratio_[PC_y - 1] * 100, 1)\<close>; and it does return a figure
  for a fitted model when the style sheet exists and \<open>hue\<close> and \<open>style\<close> name the
  \<open>Label\<close> or \<open>Sample\<close> column.
\<close>

theorem scatter_plot_label_percentage:
  assumes x: "1 \<le> PC_x" "PC_x \<le> int (n_components' (pca (self w)))"
    and y: "1 \<le> PC_y" "PC_y \<le> int (n_components' (pca (self w)))"
  shows "(\<forall>fig w'. scatter_plot mpl PC_x PC_y wd ht hue sty lab w = (Inr fig, w') \<longrightarrow>
            xlabel (figs w' ! fig) =
              Some \<lparr>text_of =
                      [PyStr (''PC '' @ str_int PC_x @ '' (''),
                       PyFloat (py_round_nd
                         (explained_variance_ratio' (pca (self w)) ! nat (PC_x - 1) * 100) 1),
                       PyStr '' % of variance)''],
                    fontsize = None\<rparr> \<and>
            ylabel (figs w' ! fig) =
              Some \<lparr>text_of =
                      [PyStr (''PC '' @ str_int PC_y @ '' (''),
                       PyFloat (py_round_nd
                         (explained_variance_ratio' (pca (self w)) ! nat (PC_y - 1) * 100) 1),
                       PyStr '' % of variance)''],
                    fontsize = None\<rparr>) \<and>
         (score_table_ok (self w) \<and> style_available mpl ''seaborn'' \<and>
          (hue = ''Label'' \<or> hue = ''Sample'') \<and> (sty = ''Label'' \<or> sty = ''Sample'') \<longrightarrow>
            (\<exists>w'. scatter_plot mpl PC_x PC_y wd ht hue sty lab w = (Inr (length (figs w)), w')))"
  using scatter_plot_labels [where mpl = mpl and wd = wd and ht = ht and hue = hue
          and sty = sty and lab = lab, OF _ x y]
    scatter_plot_returns [where mpl = mpl and wd = wd and ht = ht and hue = hue
          and style = sty and lab = lab, OF _ _ x y]
  by blast

lemma cumsum_from_sorted:
  "\<forall>v\<in>set ys. 0 \<le> v \<Longrightarrow>
     sorted (cumsum_from acc ys) \<and> (\<forall>x\<in>set (cumsum_from acc ys). acc \<le> x)"
proof (induction ys arbitrary: acc)
  case Nil
  then show ?case by simp
next
  case (Cons y ys)
  from Cons.prems have y: "0 \<le> y" and ys: "\<forall>v\<in>set ys. 0 \<le> v" by simp_all
  from Cons.IH [OF ys, of "acc + y"]
  have s: "sorted (cumsum_from (acc + y) ys)"
    and b: "\<forall>x\<in>set (cumsum_from (acc + y) ys). acc + y \<le> x" by simp_all
  from b y have "\<forall>x\<in>set (cumsum_from (acc + y) ys). acc \<le> x" by fastforce
  with s b y show ?case by simp
qed

lemma cumsum_from_last: "ys \<noteq> [] \<Longrightarrow> last (cumsum_from acc ys) = acc + sum_list ys"
proof (induction ys arbitrary: acc)
  case Nil
  then show ?case by simp
next
  case (Cons y ys)
  show ?case
  proof (cases "ys = []")
    case True
    then show ?thesis by simp
  next
    case False
    then have "cumsum_from (acc + y) ys \<noteq> []" by (cases ys) simp_all
    with Cons.IH [OF False, of "acc + y"] show ?thesis by simp
  qed
qed

lemma length_cumsum_from [simp]: "length (cumsum_from acc ys) = length ys"
  by (induction ys arbitrary: acc) simp_all

lemma sorted_np_scale: "sorted xs \<Longrightarrow> 0 \<le> c \<Longrightarrow> sorted (np_scale xs c)"
  unfolding np_scale_def
  by (induction xs) (auto simp: mult_right_mono)

lemma scree_plot_steps:
  assumes "style_available mpl sty"
    and "length (explained_variance_ratio' (pca (self w))) = n_components' (pca (self w))"
  shows "\<exists>f. scree_plot mpl wd ht sty w = (Inr (length (figs w)), w\<lparr>figs := figs w @ [f]\<rparr>) \<and>
           plots f =
             [\<lparr>line_x = map real [1..<n_components' (pca (self w)) + 1],
               line_y = np_scale (np_cumsum (explained_variance_ratio' (pca (self w)))) 100,
               line_label = ''cumulative''\<rparr>,
              \<lparr>line_x = map real [1..<n_components' (pca (self w)) + 1],
               line_y = np_scale (explained_variance_ratio' (pca (self w))) 100,
               line_label = ''per PC''\<rparr>]"
  unfolding scree_plot_def Let_def
  using assms
  apply (simp add: ax_plot_def np_scale_def np_cumsum_def new_figure_def del: upt_Suc)
  apply (rule exI, rule conjI, rule refl)
  apply simp
  done

text \<open>
  C5. For a fitted model (one explained-variance ratio per component, none of them
  negative) \<open>scree_plot\<close> returns a figure whose cumulative series is the running sum of
  the ratios times 100; the series is non-decreasing, and its final value equals the sum
  of the per-component percentages plotted beside it, that is 100 times the sum of the
  ratios.
\<close>

theorem scree_plot_cumulative:
  assumes sty: "style_available mpl sty"
    and len: "length (explained_variance_ratio' (pca (self w))) = n_components' (pca (self w))"
    and nonneg: "\<forall>v\<in>set (explained_variance_ratio' (pca (self w))). 0 \<le> v"
  shows "\<exists>fig w' cum per.
           scree_plot mpl wd ht sty w = (Inr fig, w') \<and>
           plots (figs w' ! fig) = [cum, per] \<and>
           line_label cum = ''cumulative'' \<and> line_label per = ''per PC'' \<and>
           line_y per = map (\<lambda>v. v * 100) (explained_variance_ratio' (pca (self w))) \<and>
           line_y cum = map (\<lambda>v. v * 100) (np_cumsum (explained_variance_ratio' (pca (self w)))) \<and>
           length (line_y cum) = n_components' (pca (self w)) \<and>
           sorted (line_y cum) \<and>
           (explained_variance_ratio' (pca (self w)) \<noteq> [] \<longrightarrow>
              last (line_y cum) = sum_list (line_y per) \<and>
              last (line_y cum) = sum_list (explained_variance_ratio' (pca (self w))) * 100)"
proof -
  let ?y = "explained_variance_ratio' (pca (self w))"
  from scree_plot_steps [OF sty len, of wd ht] obtain f where
    run: "scree_plot mpl wd ht sty w = (Inr (length (figs w)), w\<lparr>figs := figs w @ [f]\<rparr>)"
    and pl: "plots f =
             [\<lparr>line_x = map real [1..<n_components' (pca (self w)) + 1],
               line_y = np_scale (np_cumsum ?y) 100, line_label = ''cumulative''\<rparr>,
              \<lparr>line_x = map real [1..<n_components' (pca (self w)) + 1],
               line_y = np_scale ?y 100, line_label = ''per PC''\<rparr>]"
    by blast
  have srt: "sorted (np_scale (np_cumsum ?y) 100)"
    using cumsum_from_sorted [OF nonneg, of 0] by (simp add: sorted_np_scale np_cumsum_def)
  have lst: "last (np_scale (np_cumsum ?y) 100) = sum_list ?y * 100" if "?y \<noteq> []"
  proof -
    from that have ne: "cumsum_from 0 ?y \<noteq> []" by (cases ?y) simp_all
    then have "last (np_scale (np_cumsum ?y) 100) = last (cumsum_from 0 ?y) * 100"
      by (simp add: np_scale_def np_cumsum_def last_map)
    with cumsum_from_last [OF that, of 0] show ?thesis by simp
  qed
  have sm: "sum_list (np_scale ?y 100) = sum_list ?y * 100"
    by (simp add: np_scale_def sum_list_mult_const)
  have f: "figs (w\<lparr>figs := figs w @ [f]\<rparr>) ! length (figs w) = f" by simp
  show ?thesis
    apply (rule exI [of _ "length (figs w)"])
    apply (rule exI [of _ "w\<lparr>figs := figs w @ [f]\<rparr>"])
    apply (rule exI [of _ "\<lparr>line_x = map real [1..<n_components' (pca (self w)) + 1],
               line_y = np_scale (np_cumsum ?y) 100, line_label = ''cumulative''\<rparr>"])
    apply (rule exI [of _ "\<lparr>line_x = map real [1..<n_components' (pca (self w)) + 1],
               line_y = np_scale ?y 100, line_label = ''per PC''\<rparr>"])
    using run pl srt lst sm len
    apply (simp only: f)
    apply (simp add: np_scale_def np_cumsum_def)
    done
qed


lemma np_getrow_in_range:
  "1 \<le> i \<Longrightarrow> i \<le> int (shape0 a) \<Longrightarrow> np_getrow np a (i - 1) = Inr (rows a ! nat (i - 1))"
  by (auto simp: np_getrow_def py_index_def Let_def)

lemma np_getrow_out_of_range:
  "int (shape0 a) < i \<or> i < 1 - int (shape0 a) \<Longrightarrow>
     np_getrow np a (i - 1) =
       (if - (2 ^ 63) \<le> i - 1 \<and> i - 1 < 2 ^ 63 then Inl IndexError
        else Inl (intp_error np (i - 1)))"
  by (auto simp: np_getrow_def py_index_def Let_def)

lemma np_getrow_last:
  "0 < shape0 a \<Longrightarrow> np_getrow np a (0 - 1) = Inr (rows a ! (shape0 a - 1)) \<and>
     np_getrow np a (int (shape0 a) - 1) = Inr (rows a ! (shape0 a - 1))"
  by (auto simp: np_getrow_def py_index_def Let_def nat_diff_distrib')

lemma Dataset_getitem_error: "Dataset_getitem ds 0 = Inl e \<Longrightarrow> e = IndexError"
  by (auto simp: Dataset_getitem_def py_getitem_def py_index_def Let_def split: if_splits)

lemma loadings_plot_no_spectrum:
  "Dataset_getitem (dataset (self w)) 0 = Inl e \<Longrightarrow>
     loadings_plot np mpl PC cr wd ht w = (Inl e, w)"
  by (simp add: loadings_plot_def)

lemma loadings_plot_no_row:
  "Dataset_getitem (dataset (self w)) 0 = Inr s \<Longrightarrow>
   np_getrow np (loadings (self w)) (PC - 1) = Inl e \<Longrightarrow>
     loadings_plot np mpl PC cr wd ht w = (Inl e, w)"
  by (simp add: loadings_plot_def)

lemma loadings_plot_no_reshape:
  "Dataset_getitem (dataset (self w)) 0 = Inr s \<Longrightarrow>
   np_getrow np (loadings (self w)) (PC - 1) = Inr v \<Longrightarrow>
   np_reshape v (length (ret_time s)) (length (drift_time s)) = Inl e \<Longrightarrow>
     loadings_plot np mpl PC cr wd ht w = (Inl e, w)"
  by (simp add: loadings_plot_def)

text \<open>
  C3. For a dataset with a first spectrum and a component index \<open>PC\<close> in \<open>[1, n]\<close>,
  \<open>loadings_plot\<close> returns a figure only if the selected loading vector has as many
  entries as the product of the lengths of the first spectrum's retention-time and
  drift-time axes; when the lengths differ, the reshape raises \<open>ValueError\<close> and nothing
  is drawn.
\<close>

theorem loadings_plot_reshape:
  assumes s: "Dataset_getitem (dataset (self w)) 0 = Inr s"
    and pc: "1 \<le> PC" "PC \<le> int (shape0 (loadings (self w)))"
  shows "(\<forall>fig w'. loadings_plot np mpl PC cr wd ht w = (Inr fig, w') \<longrightarrow>
            length (rows (loadings (self w)) ! nat (PC - 1)) =
              length (ret_time s) * length (drift_time s)) \<and>
         (length (rows (loadings (self w)) ! nat (PC - 1)) \<noteq>
              length (ret_time s) * length (drift_time s) \<longrightarrow>
            loadings_plot np mpl PC cr wd ht w = (Inl ValueError, w))"
proof -
  let ?v = "rows (loadings (self w)) ! nat (PC - 1)"
  from pc have row: "np_getrow np (loadings (self w)) (PC - 1) = Inr ?v"
    by (rule np_getrow_in_range)
  have bad: "loadings_plot np mpl PC cr wd ht w = (Inl ValueError, w)"
    if "length ?v \<noteq> length (ret_time s) * length (drift_time s)"
  proof -
    from that have "np_reshape ?v (length (ret_time s)) (length (drift_time s)) = Inl ValueError"
      by (simp add: np_reshape_def)
    with s row show ?thesis by (rule loadings_plot_no_reshape)
  qed
  have good: "length ?v = length (ret_time s) * length (drift_time s)"
    if "loadings_plot np mpl PC cr wd ht w = (Inr fig, w')" for fig w'
  proof (rule ccontr)
    assume "length ?v \<noteq> length (ret_time s) * length (drift_time s)"
    from bad [OF this] that show False by simp
  qed
  from good bad show ?thesis by blast
qed

text \<open>
  C10. With at least one fitted component, \<open>loadings_plot\<close> called with \<open>PC = 0\<close> selects
  row \<open>-1\<close>, the last row of the loadings. Whenever plotting the last component
  (\<open>PC = n\<close>) returns a figure, so does \<open>PC = 0\<close>: the same figure showing the loadings of
  the last component, except that its title names component 0.
\<close>

theorem loadings_plot_PC_zero:
  assumes n: "0 < shape0 (loadings (self w))"
    and ok: "loadings_plot np mpl (int (shape0 (loadings (self w)))) cr wd ht w = (Inr fig, w')"
  shows "np_getrow np (loadings (self w)) (0 - 1) =
           Inr (rows (loadings (self w)) ! (shape0 (loadings (self w)) - 1)) \<and>
         (\<exists>f s lp. figs w' = figs w @ [f] \<and>
            Dataset_getitem (dataset (self w)) 0 = Inr s \<and>
            np_reshape (rows (loadings (self w)) ! (shape0 (loadings (self w)) - 1))
              (length (ret_time s)) (length (drift_time s)) = Inr lp \<and>
            map img (imshows f) = [lp] \<and>
            loadings_plot np mpl 0 cr wd ht w =
              (Inr fig,
               w\<lparr>figs := figs w @
                    [f\<lparr>title := Some \<lparr>text_of = [PyStr (''PCA Loadings of PC '' @ str_int 0)],
                                      fontsize = Some 16\<rparr>\<rparr>]\<rparr>))"
proof -
  let ?n = "shape0 (loadings (self w))"
  let ?last = "rows (loadings (self w)) ! (?n - 1)"
  from np_getrow_last [OF n] have r0: "np_getrow np (loadings (self w)) (0 - 1) = Inr ?last"
    and rn: "np_getrow np (loadings (self w)) (int ?n - 1) = Inr ?last" by simp_all
  from loadings_plot_Inr [OF ok] rn obtain s lp rt dt where
    s: "Dataset_getitem (dataset (self w)) 0 = Inr s"
    and lp: "np_reshape ?last (length (ret_time s)) (length (drift_time s)) = Inr lp"
    and rt: "rt_ticks_of (ret_time s) (auto_yticks mpl (heatmap wd ht lp cr)) = Inr rt"
    and dt: "dt_ticks_of (drift_time s) (auto_xticks mpl (heatmap wd ht lp cr)) = Inr dt"
    and fig: "fig = length (figs w)"
    and w': "w' = w\<lparr>figs := figs w @
                  [(heatmap wd ht lp cr)
                     \<lparr>xticks := Some (slice_1_m1 (auto_xticks mpl (heatmap wd ht lp cr)), dt),
                      yticks := Some (slice_1_m1 (auto_yticks mpl (heatmap wd ht lp cr)), rt),
                      x_minor_locator := Some AutoMinorLocator,
                      y_minor_locator := Some AutoMinorLocator,
                      xlabel := Some \<lparr>text_of = [PyStr (drift_time_label s)], fontsize = Some 12\<rparr>,
                      ylabel := Some \<lparr>text_of = [PyStr ''Retention Time [s]''], fontsize = Some 12\<rparr>,
                      title := Some \<lparr>text_of = [PyStr (''PCA Loadings of PC '' @ str_int (int ?n))],
                                     fontsize = Some 16\<rparr>\<rparr>]\<rparr>"
    by auto
  from loadings_plot_steps [OF s r0 lp rt dt]
  have zero: "loadings_plot np mpl 0 cr wd ht w =
          (Inr (length (figs w)),
           w\<lparr>figs := figs w @
                  [(heatmap wd ht lp cr)
                     \<lparr>xticks := Some (slice_1_m1 (auto_xticks mpl (heatmap wd ht lp cr)), dt),
                      yticks := Some (slice_1_m1 (auto_yticks mpl (heatmap wd ht lp cr)), rt),
                      x_minor_locator := Some AutoMinorLocator,
                      y_minor_locator := Some AutoMinorLocator,
                      xlabel := Some \<lparr>text_of = [PyStr (drift_time_label s)], fontsize = Some 12\<rparr>,
                      ylabel := Some \<lparr>text_of = [PyStr ''Retention Time [s]''], fontsize = Some 12\<rparr>,
                      title := Some \<lparr>text_of = [PyStr (''PCA Loadings of PC '' @ str_int 0)],
                                     fontsize = Some 16\<rparr>\<rparr>]\<rparr>)" .
  show ?thesis
    using r0 s lp fig
    by (simp add: w' zero heatmap_def)
qed

lemma np_getrow_wrap:
  "1 - int (shape0 a) \<le> i \<Longrightarrow> i \<le> 0 \<Longrightarrow>
     np_getrow np a (i - 1) = Inr (rows a ! nat (int (shape0 a) + i - 1)) \<and>
     np_getrow np a (i + int (shape0 a) - 1) = Inr (rows a ! nat (int (shape0 a) + i - 1))"
  by (auto simp: np_getrow_def py_index_def Let_def algebra_simps)

lemma loadings_plot_same_row_error:
  assumes "np_getrow np (loadings (self w)) (PC - 1) = np_getrow np (loadings (self w)) (PC' - 1)"
    and "loadings_plot np mpl PC' cr wd ht w = (Inl e, w'')"
  shows "loadings_plot np mpl PC cr wd ht w = (Inl e, w'')"
  using assms(2) unfolding loadings_plot_def assms(1) Let_def
  by (auto split: sum.splits)

lemma loadings_plot_same_row_figure:
  assumes row: "np_getrow np (loadings (self w)) (PC - 1) = np_getrow np (loadings (self w)) (PC' - 1)"
    and ok: "loadings_plot np mpl PC' cr wd ht w = (Inr fig, w')"
  shows "\<exists>f. figs w' = figs w @ [f] \<and>
           loadings_plot np mpl PC cr wd ht w =
             (Inr fig,
              w\<lparr>figs := figs w @
                   [f\<lparr>title := Some \<lparr>text_of = [PyStr (''PCA Loadings of PC '' @ str_int PC)],
                                     fontsize = Some 16\<rparr>\<rparr>]\<rparr>)"
proof -
  from loadings_plot_Inr [OF ok] obtain s v lp rt dt where
    s: "Dataset_getitem (dataset (self w)) 0 = Inr s"
    and v: "np_getrow np (loadings (self w)) (PC' - 1) = Inr v"
    and lp: "np_reshape v (length (ret_time s)) (length (drift_time s)) = Inr lp"
    and rt: "rt_ticks_of (ret_time s) (auto_yticks mpl (heatmap wd ht lp cr)) = Inr rt"
    and dt: "dt_ticks_of (drift_time s) (auto_xticks mpl (heatmap wd ht lp cr)) = Inr dt"
    and fig: "fig = length (figs w)"
    and w': "w' = w\<lparr>figs := figs w @
                  [(heatmap wd ht lp cr)
                     \<lparr>xticks := Some (slice_1_m1 (auto_xticks mpl (heatmap wd ht lp cr)), dt),
                      yticks := Some (slice_1_m1 (auto_yticks mpl (heatmap wd ht lp cr)), rt),
                      x_minor_locator := Some AutoMinorLocator,
                      y_minor_locator := Some AutoMinorLocator,
                      xlabel := Some \<lparr>text_of = [PyStr (drift_time_label s)], fontsize = Some 12\<rparr>,
                      ylabel := Some \<lparr>text_of = [PyStr ''Retention Time [s]''], fontsize = Some 12\<rparr>,
                      title := Some \<lparr>text_of = [PyStr (''PCA Loadings of PC '' @ str_int PC')],
                                     fontsize = Some 16\<rparr>\<rparr>]\<rparr>"
    by blast
  from v row have v': "np_getrow np (loadings (self w)) (PC - 1) = Inr v" by simp
  from loadings_plot_steps [OF s v' lp rt dt] fig
  show ?thesis by (simp add: w')
qed


lemma loadings_plot_row_out_of_range:
  assumes r: "int (shape0 (loadings (self w))) < PC \<or> PC < 1 - int (shape0 (loadings (self w)))"
  shows "(\<exists>e. loadings_plot np mpl PC cr wd ht w = (Inl e, w)) \<and>
         (- (2 ^ 63) \<le> PC - 1 \<and> PC - 1 < 2 ^ 63 \<longrightarrow>
            loadings_plot np mpl PC cr wd ht w = (Inl IndexError, w))"
proof (cases "Dataset_getitem (dataset (self w)) 0")
  case (Inl e)
  with Dataset_getitem_error [OF Inl] loadings_plot_no_spectrum [OF Inl]
  show ?thesis by simp
next
  case (Inr s)
  note row = np_getrow_out_of_range [OF r, of np]
  show ?thesis
  proof (cases "- (2 ^ 63) \<le> PC - 1 \<and> PC - 1 < 2 ^ 63")
    case True
    have "np_getrow np (loadings (self w)) (PC - 1) = Inl IndexError"
      using row [unfolded if_P [OF True]] .
    from loadings_plot_no_row [OF Inr this] True show ?thesis by blast
  next
    case False
    have "np_getrow np (loadings (self w)) (PC - 1) = Inl (intp_error np (PC - 1))"
      using row [unfolded if_not_P [OF False]] .
    from loadings_plot_no_row [OF Inr this] False show ?thesis by blast
  qed
qed

text \<open>
  C2, as amended. \<open>scatter_plot\<close> with \<open>PC_x\<close> or \<open>PC_y\<close> outside \<open>[1, n_components_]\<close>
  raises and returns no figure: once the table is built and the style sheet entered, the
  plotting call rejects the column name \<open>PC k\<close> with \<open>ValueError\<close>, before the label
  lookup is reached. For \<open>loadings_plot\<close>, with \<open>n\<close> the number of loading rows:
  when \<open>PC > n\<close> or \<open>PC < 1 - n\<close> the call raises and leaves the figure registry as it
  was, and the exception is \<open>IndexError\<close> whenever \<open>PC - 1\<close> fits a signed 64-bit
  integer; when \<open>1 - n \<le> PC \<le> 0\<close> the negative index wraps around, the row selection
  raises nothing and picks row \<open>n + PC - 1\<close>, and the call does what it does for
  \<open>PC + n\<close>, the same error or the same figure, except that the title names \<open>PC\<close>.
  Neither method validates the index itself.
\<close>

theorem index_out_of_range_errors:
  "(PC_x < 1 \<or> int (n_components' (pca (self w))) < PC_x \<or>
    PC_y < 1 \<or> int (n_components' (pca (self w))) < PC_y \<longrightarrow>
      (\<exists>e. fst (scatter_plot mpl PC_x PC_y wd ht hue sty lab w) = Inl e) \<and>
      (\<forall>ev df. expl_var_of (pca (self w)) = Inr ev \<and> pc_df_of (self w) = Inr df \<and>
               style_available mpl ''seaborn'' \<longrightarrow>
         fst (scatter_plot mpl PC_x PC_y wd ht hue sty lab w) = Inl ValueError)) \<and>
   (int (shape0 (loadings (self w))) < PC \<or> PC < 1 - int (shape0 (loadings (self w))) \<longrightarrow>
      (\<exists>e. loadings_plot np mpl PC cr wd' ht' w = (Inl e, w)) \<and>
      (- (2 ^ 63) \<le> PC - 1 \<and> PC - 1 < 2 ^ 63 \<longrightarrow>
         loadings_plot np mpl PC cr wd' ht' w = (Inl IndexError, w))) \<and>
   (1 - int (shape0 (loadings (self w))) \<le> PC \<and> PC \<le> 0 \<longrightarrow>
      np_getrow np (loadings (self w)) (PC - 1) =
        Inr (rows (loadings (self w)) ! nat (int (shape0 (loadings (self w))) + PC - 1)) \<and>
      np_getrow np (loadings (self w)) (PC - 1) =
        np_getrow np (loadings (self w)) (PC + int (shape0 (loadings (self w))) - 1) \<and>
      (\<forall>e w''. loadings_plot np mpl (PC + int (shape0 (loadings (self w)))) cr wd' ht' w
                  = (Inl e, w'') \<longrightarrow>
         loadings_plot np mpl PC cr wd' ht' w = (Inl e, w'')) \<and>
      (\<forall>fig w'. loadings_plot np mpl (PC + int (shape0 (loadings (self w)))) cr wd' ht' w
                  = (Inr fig, w') \<longrightarrow>
         (\<exists>f. figs w' = figs w @ [f] \<and>
            loadings_plot np mpl PC cr wd' ht' w =
              (Inr fig,
               w\<lparr>figs := figs w @
                    [f\<lparr>title := Some \<lparr>text_of = [PyStr (''PCA Loadings of PC '' @ str_int PC)],
                                      fontsize = Some 16\<rparr>\<rparr>]\<rparr>))))"
proof -
  let ?n = "int (shape0 (loadings (self w)))"
  have wrap: "np_getrow np (loadings (self w)) (PC - 1) =
                Inr (rows (loadings (self w)) ! nat (?n + PC - 1))"
    "np_getrow np (loadings (self w)) (PC - 1) = np_getrow np (loadings (self w)) (PC + ?n - 1)"
    if "1 - ?n \<le> PC \<and> PC \<le> 0"
    using np_getrow_wrap [of "loadings (self w)" PC np] that by simp_all
  have same_err: "loadings_plot np mpl PC cr wd' ht' w = (Inl e, w'')"
    if "1 - ?n \<le> PC \<and> PC \<le> 0" "loadings_plot np mpl (PC + ?n) cr wd' ht' w = (Inl e, w'')"
    for e w''
    using loadings_plot_same_row_error [OF wrap(2) [OF that(1)] that(2)] .
  have same_fig: "\<exists>f. figs w' = figs w @ [f] \<and>
            loadings_plot np mpl PC cr wd' ht' w =
              (Inr fig,
               w\<lparr>figs := figs w @
                    [f\<lparr>title := Some \<lparr>text_of = [PyStr (''PCA Loadings of PC '' @ str_int PC)],
                                      fontsize = Some 16\<rparr>\<rparr>]\<rparr>)"
    if "1 - ?n \<le> PC \<and> PC \<le> 0" "loadings_plot np mpl (PC + ?n) cr wd' ht' w = (Inr fig, w')"
    for fig w'
    using loadings_plot_same_row_figure [OF wrap(2) [OF that(1)] that(2)] .
  show ?thesis
    apply (intro conjI impI allI)
    using scatter_plot_out_of_range [of PC_x w PC_y mpl wd ht hue sty lab]
           apply blast
    using scatter_plot_out_of_range [of PC_x w PC_y mpl wd ht hue sty lab]
          apply blast
    using loadings_plot_row_out_of_range [of w PC np mpl cr wd' ht']
         apply blast
    using loadings_plot_row_out_of_range [of w PC np mpl cr wd' ht']
        apply blast
       apply (erule wrap(1))
      apply (erule wrap(2))
     apply (erule (1) same_err)
    apply (erule (1) same_fig)
    done
qed

text \<open>
  C7. Each of \<open>scatter_plot\<close>, \<open>loadings_plot\<close> and \<open>scree_plot\<close> leaves the model object
  (and with it \<open>pca\<close>, \<open>pc\<close>, \<open>loadings\<close>, \<open>dataset\<close> and \<open>scaling_method\<close>) as it was,
  whether it returns or raises, and leaves every figure that existed before the call
  untouched; when it returns, the figure it returns is a new one, and the only new one.
\<close>

theorem plot_methods_frame:
  "(self (snd (scatter_plot mpl PC_x PC_y wd ht hue sty lab w)) = self w \<and>
    take (length (figs w)) (figs (snd (scatter_plot mpl PC_x PC_y wd ht hue sty lab w))) = figs w \<and>
    (\<forall>fig. fst (scatter_plot mpl PC_x PC_y wd ht hue sty lab w) = Inr fig \<longrightarrow>
       fig = length (figs w) \<and>
       length (figs (snd (scatter_plot mpl PC_x PC_y wd ht hue sty lab w))) = Suc (length (figs w)))) \<and>
   (self (snd (loadings_plot np mpl PC cr wd ht w)) = self w \<and>
    take (length (figs w)) (figs (snd (loadings_plot np mpl PC cr wd ht w))) = figs w \<and>
    (\<forall>fig. fst (loadings_plot np mpl PC cr wd ht w) = Inr fig \<longrightarrow>
       fig = length (figs w) \<and>
       length (figs (snd (loadings_plot np mpl PC cr wd ht w))) = Suc (length (figs w)))) \<and>
   (self (snd (scree_plot mpl wd ht sty w)) = self w \<and>
    take (length (figs w)) (figs (snd (scree_plot mpl wd ht sty w))) = figs w \<and>
    (\<forall>fig. fst (scree_plot mpl wd ht sty w) = Inr fig \<longrightarrow>
       fig = length (figs w) \<and>
       length (figs (snd (scree_plot mpl wd ht sty w))) = Suc (length (figs w))))"
  using scatter_plot_frame [of mpl PC_x PC_y wd ht hue sty lab w]
    loadings_plot_frame [of np mpl PC cr wd ht w] scree_plot_frame [of mpl wd ht sty w]
  by blast


lemma py_int_of_int [simp]: "py_int (of_int i) = i"
  by (simp add: py_int_def)

lemma slice_1_m1_drops_ends:
  "2 \<le> length xs \<Longrightarrow> xs = hd xs # slice_1_m1 xs @ [last xs]"
  by (cases xs; cases "tl xs") (auto simp: slice_1_m1_def)

lemma rt_ticks_of_Inr:
  assumes "rt_ticks_of ret ylocs = Inr rt"
  shows "length rt = length (slice_1_m1 ylocs) \<and>
         (\<forall>k<length rt. \<exists>v. py_getitem ret (py_int (slice_1_m1 ylocs ! k)) = Inr v \<and>
                             rt ! k = PyInt (py_round v))"
proof -
  let ?f = "\<lambda>i. case py_getitem ret (py_int i) of
               Inl e \<Rightarrow> Inl e
             | Inr v \<Rightarrow> Inr (PyInt (py_round v))"
  from assms have "list_comp ?f (slice_1_m1 ylocs) = Inr rt" by (simp add: rt_ticks_of_def)
  from list_comp_Inr [OF this] have len: "length rt = length (slice_1_m1 ylocs)"
    and each: "\<forall>k<length (slice_1_m1 ylocs). ?f (slice_1_m1 ylocs ! k) = Inr (rt ! k)"
    by blast+
  have "\<exists>v. py_getitem ret (py_int (slice_1_m1 ylocs ! k)) = Inr v \<and> rt ! k = PyInt (py_round v)"
    if "k < length rt" for k
  proof -
    from that len each have "?f (slice_1_m1 ylocs ! k) = Inr (rt ! k)" by simp
    then show ?thesis by (auto split: sum.splits)
  qed
  with len show ?thesis by blast
qed

lemma dt_ticks_of_Inr:
  assumes "dt_ticks_of drift xlocs = Inr dt"
  shows "length dt = length (slice_1_m1 xlocs) \<and>
         (\<forall>k<length dt. \<exists>v. py_getitem drift (py_int (slice_1_m1 xlocs ! k)) = Inr v \<and>
                             dt ! k = PyFloat (py_round_nd v 1))"
proof -
  let ?f = "\<lambda>i. case py_getitem drift (py_int i) of
               Inl e \<Rightarrow> Inl e
             | Inr v \<Rightarrow> Inr (PyFloat (py_round_nd v 1))"
  from assms have "list_comp ?f (slice_1_m1 xlocs) = Inr dt" by (simp add: dt_ticks_of_def)
  from list_comp_Inr [OF this] have len: "length dt = length (slice_1_m1 xlocs)"
    and each: "\<forall>k<length (slice_1_m1 xlocs). ?f (slice_1_m1 xlocs ! k) = Inr (dt ! k)"
    by blast+
  have "\<exists>v. py_getitem drift (py_int (slice_1_m1 xlocs ! k)) = Inr v \<and>
            dt ! k = PyFloat (py_round_nd v 1)"
    if "k < length dt" for k
  proof -
    from that len each have "?f (slice_1_m1 xlocs ! k) = Inr (dt ! k)" by simp
    then show ?thesis by (auto split: sum.splits)
  qed
  with len show ?thesis by blast
qed

lemma py_getitem_nonneg:
  "0 \<le> i \<Longrightarrow> py_getitem xs i = Inr v \<Longrightarrow> i < int (length xs) \<and> v = xs ! nat i"
  by (auto simp: py_getitem_def py_index_def Let_def split: if_splits)

text \<open>
  C9. In a figure returned by \<open>loadings_plot\<close>, the tick locations on each axis are the
  automatic ones without the first and the last. Every remaining y tick is labelled with
  the retention time at the index \<open>int(tick)\<close>, rounded to an integer, and every
  remaining x tick with the drift time at the index \<open>int(tick)\<close>, rounded to one
  decimal; for a tick at a non-negative integer position \<open>i\<close> that is the value at index
  \<open>i\<close>. Both axes get an \<open>AutoMinorLocator\<close>.
\<close>

theorem loadings_plot_ticks:
  assumes ok: "loadings_plot np mpl PC cr wd ht w = (Inr fig, w')"
  shows "\<exists>s lp xlocs ylocs dt rt.
           Dataset_getitem (dataset (self w)) 0 = Inr s \<and>
           map img (imshows (figs w' ! fig)) = [lp] \<and>
           xlocs = auto_xticks mpl (heatmap wd ht lp cr) \<and>
           ylocs = auto_yticks mpl (heatmap wd ht lp cr) \<and>
           xticks (figs w' ! fig) = Some (slice_1_m1 xlocs, dt) \<and>
           yticks (figs w' ! fig) = Some (slice_1_m1 ylocs, rt) \<and>
           (2 \<le> length xlocs \<longrightarrow> xlocs = hd xlocs # slice_1_m1 xlocs @ [last xlocs]) \<and>
           (2 \<le> length ylocs \<longrightarrow> ylocs = hd ylocs # slice_1_m1 ylocs @ [last ylocs]) \<and>
           length dt = length (slice_1_m1 xlocs) \<and> length rt = length (slice_1_m1 ylocs) \<and>
           (\<forall>k<length rt. \<exists>v. py_getitem (ret_time s) (py_int (slice_1_m1 ylocs ! k)) = Inr v \<and>
                               rt ! k = PyInt (py_round v)) \<and>
           (\<forall>k<length dt. \<exists>v. py_getitem (drift_time s) (py_int (slice_1_m1 xlocs ! k)) = Inr v \<and>
                               dt ! k = PyFloat (py_round_nd v 1)) \<and>
           (\<forall>k<length rt. \<forall>i. slice_1_m1 ylocs ! k = of_int i \<and> 0 \<le> i \<longrightarrow>
              i < int (length (ret_time s)) \<and> rt ! k = PyInt (py_round (ret_time s ! nat i))) \<and>
           (\<forall>k<length dt. \<forall>j. slice_1_m1 xlocs ! k = of_int j \<and> 0 \<le> j \<longrightarrow>
              j < int (length (drift_time s)) \<and>
              dt ! k = PyFloat (py_round_nd (drift_time s ! nat j) 1)) \<and>
           x_minor_locator (figs w' ! fig) = Some AutoMinorLocator \<and>
           y_minor_locator (figs w' ! fig) = Some AutoMinorLocator"
proof -
  from loadings_plot_Inr [OF ok] obtain s lp rt dt where
    s: "Dataset_getitem (dataset (self w)) 0 = Inr s"
    and rt: "rt_ticks_of (ret_time s) (auto_yticks mpl (heatmap wd ht lp cr)) = Inr rt"
    and dt: "dt_ticks_of (drift_time s) (auto_xticks mpl (heatmap wd ht lp cr)) = Inr dt"
    and fig: "fig = length (figs w)"
    and w': "w' = w\<lparr>figs := figs w @
                  [(heatmap wd ht lp cr)
                     \<lparr>xticks := Some (slice_1_m1 (auto_xticks mpl (heatmap wd ht lp cr)), dt),
                      yticks := Some (slice_1_m1 (auto_yticks mpl (heatmap wd ht lp cr)), rt),
                      x_minor_locator := Some AutoMinorLocator,
                      y_minor_locator := Some AutoMinorLocator,
                      xlabel := Some \<lparr>text_of = [PyStr (drift_time_label s)], fontsize = Some 12\<rparr>,
                      ylabel := Some \<lparr>text_of = [PyStr ''Retention Time [s]''], fontsize = Some 12\<rparr>,
                      title := Some \<lparr>text_of = [PyStr (''PCA Loadings of PC '' @ str_int PC)],
                                     fontsize = Some 16\<rparr>\<rparr>]\<rparr>"
    by blast
  let ?xl = "auto_xticks mpl (heatmap wd ht lp cr)"
  let ?yl = "auto_yticks mpl (heatmap wd ht lp cr)"
  from rt_ticks_of_Inr [OF rt] have lrt: "length rt = length (slice_1_m1 ?yl)"
    and ert: "\<forall>k<length rt. \<exists>v. py_getitem (ret_time s) (py_int (slice_1_m1 ?yl ! k)) = Inr v \<and>
                               rt ! k = PyInt (py_round v)" by blast+
  from dt_ticks_of_Inr [OF dt] have ldt: "length dt = length (slice_1_m1 ?xl)"
    and edt: "\<forall>k<length dt. \<exists>v. py_getitem (drift_time s) (py_int (slice_1_m1 ?xl ! k)) = Inr v \<and>
                               dt ! k = PyFloat (py_round_nd v 1)" by blast+
  have irt: "i < int (length (ret_time s)) \<and> rt ! k = PyInt (py_round (ret_time s ! nat i))"
    if "k < length rt" "slice_1_m1 ?yl ! k = of_int i \<and> 0 \<le> i" for k i
  proof -
    from ert that obtain v where "py_getitem (ret_time s) i = Inr v" "rt ! k = PyInt (py_round v)"
      by fastforce
    with that(2) py_getitem_nonneg [of i "ret_time s" v] show ?thesis by simp
  qed
  have idt: "j < int (length (drift_time s)) \<and>
             dt ! k = PyFloat (py_round_nd (drift_time s ! nat j) 1)"
    if "k < length dt" "slice_1_m1 ?xl ! k = of_int j \<and> 0 \<le> j" for k j
  proof -
    from edt that obtain v where "py_getitem (drift_time s) j = Inr v"
      "dt ! k = PyFloat (py_round_nd v 1)"
      by fastforce
    with that(2) py_getitem_nonneg [of j "drift_time s" v] show ?thesis by simp
  qed
  from fig w' have f: "figs w' ! fig = (heatmap wd ht lp cr)
                     \<lparr>xticks := Some (slice_1_m1 ?xl, dt),
                      yticks := Some (slice_1_m1 ?yl, rt),
                      x_minor_locator := Some AutoMinorLocator,
                      y_minor_locator := Some AutoMinorLocator,
                      xlabel := Some \<lparr>text_of = [PyStr (drift_time_label s)], fontsize = Some 12\<rparr>,
                      ylabel := Some \<lparr>text_of = [PyStr ''Retention Time [s]''], fontsize = Some 12\<rparr>,
                      title := Some \<lparr>text_of = [PyStr (''PCA Loadings of PC '' @ str_int PC)],
                                     fontsize = Some 16\<rparr>\<rparr>"
    by simp
  have img: "map img (imshows (figs w' ! fig)) = [lp]"
    by (simp add: f heatmap_def)
  have tk: "xticks (figs w' ! fig) = Some (slice_1_m1 ?xl, dt)"
    "yticks (figs w' ! fig) = Some (slice_1_m1 ?yl, rt)"
    "x_minor_locator (figs w' ! fig) = Some AutoMinorLocator"
    "y_minor_locator (figs w' ! fig) = Some AutoMinorLocator"
    by (simp_all add: f)
  from irt have irt': "\<forall>k<length rt. \<forall>i. slice_1_m1 ?yl ! k = of_int i \<and> 0 \<le> i \<longrightarrow>
              i < int (length (ret_time s)) \<and> rt ! k = PyInt (py_round (ret_time s ! nat i))"
    by blast
  from idt have idt': "\<forall>k<length dt. \<forall>j. slice_1_m1 ?xl ! k = of_int j \<and> 0 \<le> j \<longrightarrow>
              j < int (length (drift_time s)) \<and>
              dt ! k = PyFloat (py_round_nd (drift_time s ! nat j) 1)"
    by blast
  have slx: "2 \<le> length ?xl \<longrightarrow> ?xl = hd ?xl # slice_1_m1 ?xl @ [last ?xl]"
    using slice_1_m1_drops_ends [of ?xl] by blast
  have sly: "2 \<le> length ?yl \<longrightarrow> ?yl = hd ?yl # slice_1_m1 ?yl @ [last ?yl]"
    using slice_1_m1_drops_ends [of ?yl] by blast
  show ?thesis
    apply (rule exI [of _ s], rule exI [of _ lp], rule exI [of _ ?xl], rule exI [of _ ?yl])
    apply (rule exI [of _ dt], rule exI [of _ rt])
    apply (intro conjI refl s img tk lrt ldt ert edt irt' idt' slx sly)
    done
qed

section \<open>The worked example\<close>

lemma str_int_small:
  "str_int 0 = ''0''" "str_int 1 = ''1''" "str_int 2 = ''2''" "str_int 3 = ''3''"
  by code_simp+

lemma ex_getitem: "Dataset_getitem (dataset (self ex_world)) 0 = Inr ex_spectrum"
  by (simp add: ex_world_def ex_model_def ex_dataset_def Dataset_getitem_def py_getitem_def
        py_index_def)

lemma ex_rt_ticks:
  "rt_ticks_of (ret_time ex_spectrum) (auto_yticks toy_mpl g) = Inr [PyInt 10, PyInt 10, PyInt 20]"
  by (simp add: ex_spectrum_def toy_mpl_def rt_ticks_of_def slice_1_m1_def py_getitem_def
        py_index_def py_int_def py_round_def Let_def)

lemma ex_dt_ticks:
  "dt_ticks_of (drift_time ex_spectrum) (auto_xticks toy_mpl g) =
     Inr [PyFloat 1, PyFloat (6 / 5), PyFloat (13 / 10)]"
  by (simp add: ex_spectrum_def toy_mpl_def dt_ticks_of_def slice_1_m1_def py_getitem_def
        py_index_def py_int_def py_round_def py_round_nd_def Let_def)

lemma ex_rows:
  "np_getrow toy_np (loadings (self ex_world)) (1 - 1) = Inr [0, 1, 4 / 3, 3 / 2, 8 / 5, 5 / 3]"
  "np_getrow toy_np (loadings (self ex_world)) (2 - 1) = Inr [1, 3 / 2, 5 / 3, 7 / 4, 9 / 5, 11 / 6]"
  "np_getrow toy_np (loadings (self ex_world)) (0 - 1) = Inr [1, 3 / 2, 5 / 3, 7 / 4, 9 / 5, 11 / 6]"
  by (simp_all add: ex_world_def ex_model_def np_getrow_def py_index_def)

lemma ex_reshape:
  "np_reshape [a, b, c, d, e, f] (length (ret_time ex_spectrum)) (length (drift_time ex_spectrum))
     = Inr \<lparr>shape0 = 2, shape1 = 3, rows = [[a, b, c], [d, e, f]]\<rparr>"
  by (simp add: ex_spectrum_def np_reshape_def)

lemma ex_loadings_plot_1:
  "loadings_plot toy_np toy_mpl 1 (1 / 10) 9 10 ex_world =
     (Inr 0,
      ex_world\<lparr>figs :=
        [(heatmap 9 10 \<lparr>shape0 = 2, shape1 = 3, rows = [[0, 1, 4 / 3], [3 / 2, 8 / 5, 5 / 3]]\<rparr>
            (1 / 10))
          \<lparr>xticks := Some ([0, 1, 2], [PyFloat 1, PyFloat (6 / 5), PyFloat (13 / 10)]),
           yticks := Some ([0, 1 / 2, 1], [PyInt 10, PyInt 10, PyInt 20]),
           x_minor_locator := Some AutoMinorLocator,
           y_minor_locator := Some AutoMinorLocator,
           xlabel := Some \<lparr>text_of = [PyStr ''Drift Time [ms]''], fontsize = Some 12\<rparr>,
           ylabel := Some \<lparr>text_of = [PyStr ''Retention Time [s]''], fontsize = Some 12\<rparr>,
           title := Some \<lparr>text_of = [PyStr ''PCA Loadings of PC 1''], fontsize = Some 16\<rparr>\<rparr>]\<rparr>)"
  using loadings_plot_steps [where np = toy_np and mpl = toy_mpl and PC = 1 and cr = "1 / 10" and wd = 9
          and ht = 10 and w = ex_world,
          OF ex_getitem ex_rows(1) ex_reshape ex_rt_ticks ex_dt_ticks]
  by (simp add: str_int_small ex_world_def toy_mpl_def slice_1_m1_def ex_spectrum_def)

lemma ex_loadings_plot_2:
  "loadings_plot toy_np toy_mpl 2 (1 / 10) 9 10 ex_world =
     (Inr 0,
      ex_world\<lparr>figs :=
        [(heatmap 9 10 \<lparr>shape0 = 2, shape1 = 3, rows = [[1, 3 / 2, 5 / 3], [7 / 4, 9 / 5, 11 / 6]]\<rparr>
            (1 / 10))
          \<lparr>xticks := Some ([0, 1, 2], [PyFloat 1, PyFloat (6 / 5), PyFloat (13 / 10)]),
           yticks := Some ([0, 1 / 2, 1], [PyInt 10, PyInt 10, PyInt 20]),
           x_minor_locator := Some AutoMinorLocator,
           y_minor_locator := Some AutoMinorLocator,
           xlabel := Some \<lparr>text_of = [PyStr ''Drift Time [ms]''], fontsize = Some 12\<rparr>,
           ylabel := Some \<lparr>text_of = [PyStr ''Retention Time [s]''], fontsize = Some 12\<rparr>,
           title := Some \<lparr>text_of = [PyStr ''PCA Loadings of PC 2''], fontsize = Some 16\<rparr>\<rparr>]\<rparr>)"
  using loadings_plot_steps [where np = toy_np and mpl = toy_mpl and PC = 2 and cr = "1 / 10" and wd = 9
          and ht = 10 and w = ex_world,
          OF ex_getitem ex_rows(2) ex_reshape ex_rt_ticks ex_dt_ticks]
  by (simp add: str_int_small ex_world_def toy_mpl_def slice_1_m1_def ex_spectrum_def)

lemma ex_loadings_plot_0:
  "loadings_plot toy_np toy_mpl 0 (1 / 10) 9 10 ex_world =
     (Inr 0,
      ex_world\<lparr>figs :=
        [(heatmap 9 10 \<lparr>shape0 = 2, shape1 = 3, rows = [[1, 3 / 2, 5 / 3], [7 / 4, 9 / 5, 11 / 6]]\<rparr>
            (1 / 10))
          \<lparr>xticks := Some ([0, 1, 2], [PyFloat 1, PyFloat (6 / 5), PyFloat (13 / 10)]),
           yticks := Some ([0, 1 / 2, 1], [PyInt 10, PyInt 10, PyInt 20]),
           x_minor_locator := Some AutoMinorLocator,
           y_minor_locator := Some AutoMinorLocator,
           xlabel := Some \<lparr>text_of = [PyStr ''Drift Time [ms]''], fontsize = Some 12\<rparr>,
           ylabel := Some \<lparr>text_of = [PyStr ''Retention Time [s]''], fontsize = Some 12\<rparr>,
           title := Some \<lparr>text_of = [PyStr ''PCA Loadings of PC 0''], fontsize = Some 16\<rparr>\<rparr>]\<rparr>)"
  using loadings_plot_steps [where np = toy_np and mpl = toy_mpl and PC = 0 and cr = "1 / 10" and wd = 9
          and ht = 10 and w = ex_world,
          OF ex_getitem ex_rows(3) ex_reshape ex_rt_ticks ex_dt_ticks]
  by (simp add: str_int_small ex_world_def toy_mpl_def slice_1_m1_def ex_spectrum_def)

lemma ex_expl_var: "expl_var_of (pca (self ex_world)) = Inr [667 / 10, 111 / 5]"
  by (simp add: ex_world_def ex_model_def expl_var_of_def py_getitem_def py_index_def
        py_round_nd_def py_round_def Let_def upt_rec)

lemma ex_pc_df:
  "pc_df_of (self ex_world) =
     Inr \<lparr>index_len = 2,
          columns = [(''PC 1'', [PyFloat 1, PyFloat 2]), (''PC 2'', [PyFloat 2, PyFloat 3]),
                     (''Sample'', [PyStr ''a'', PyStr ''b'']),
                     (''Label'', [PyStr ''x'', PyStr ''y''])]\<rparr>"
  by (simp add: ex_world_def ex_model_def ex_dataset_def pc_df_of_def pd_DataFrame_def
        df_setitem_def pc_names_def str_int_small upt_rec)

lemma ex_scatter_plot:
  "scatter_plot toy_mpl 1 2 9 8 ''Label'' ''Label'' True ex_world =
     (Inr 0,
      ex_world\<lparr>figs :=
        [(new_figure (9, 8) (Some ''seaborn''))
          \<lparr>scatters := [\<lparr>scatter_x = [PyFloat 1, PyFloat 2], scatter_y = [PyFloat 2, PyFloat 3],
                          scatter_hue = [PyStr ''x'', PyStr ''y''],
                          scatter_style = [PyStr ''x'', PyStr ''y''], scatter_s = 100\<rparr>],
           legend := Some \<lparr>frameon = True, fancybox = True, facecolor = ''white''\<rparr>,
           xlabel := Some \<lparr>text_of = [PyStr ''PC 1 ('', PyFloat (667 / 10),
                                        PyStr '' % of variance)''], fontsize = None\<rparr>,
           ylabel := Some \<lparr>text_of = [PyStr ''PC 2 ('', PyFloat (111 / 5),
                                        PyStr '' % of variance)''], fontsize = None\<rparr>,
           texts := [(PyFloat 1, PyFloat 2, PyStr ''a''), (PyFloat 2, PyFloat 3, PyStr ''b'')]\<rparr>]\<rparr>)"
  by (simp add: scatter_plot_def ex_expl_var ex_pc_df sns_scatterplot_def point_texts_def
        str_int_small py_getitem_def py_index_def Let_def new_figure_def)
    (simp add: ex_world_def toy_mpl_def)

lemma ex_scree_plot:
  "\<exists>f. scree_plot toy_mpl 9 8 ''seaborn'' ex_world = (Inr 0, ex_world\<lparr>figs := [f]\<rparr>) \<and>
       plots f = [\<lparr>line_x = [1, 2], line_y = [200 / 3, 800 / 9], line_label = ''cumulative''\<rparr>,
                  \<lparr>line_x = [1, 2], line_y = [200 / 3, 200 / 9], line_label = ''per PC''\<rparr>]"
proof -
  have a: "style_available toy_mpl ''seaborn''" by (simp add: toy_mpl_def)
  have b: "length (explained_variance_ratio' (pca (self ex_world))) =
             n_components' (pca (self ex_world))"
    by (simp add: ex_world_def ex_model_def)
  from scree_plot_steps [OF a b, of 9 8] show ?thesis
    by (simp add: ex_world_def ex_model_def np_scale_def np_cumsum_def upt_rec)
qed

lemma ex_bad_getitem:
  "Dataset_getitem (dataset (self ex_world_bad)) 0 = Inr (ex_spectrum\<lparr>ret_time := [1, 2, 3]\<rparr>)"
  by (simp add: ex_world_bad_def ex_model_def ex_dataset_def Dataset_getitem_def py_getitem_def
        py_index_def)


lemma ex_sizes:
  "n_components' (pca (self ex_world)) = 2" "shape0 (loadings (self ex_world)) = 2"
  "length (explained_variance_ratio' (pca (self ex_world))) = 2"
  "explained_variance_ratio' (pca (self ex_world)) = [2 / 3, 2 / 9]"
  "figs ex_world = []"
  "shape0 (loadings (self ex_world_bad)) = 2"
  "rows (loadings (self ex_world)) ! 0 = [0, 1, 4 / 3, 3 / 2, 8 / 5, 5 / 3]"
  "rows (loadings (self ex_world_bad)) ! 0 = [0, 1, 4 / 3, 3 / 2, 8 / 5, 5 / 3]"
  by (simp_all add: ex_world_def ex_world_bad_def ex_model_def)

lemma toy_style: "style_available toy_mpl ''seaborn''"
  by (simp add: toy_mpl_def)

lemma ex_rows_wrap:
  "np_getrow toy_np (loadings (self ex_world)) (- 1 - 1) = Inr [0, 1, 4 / 3, 3 / 2, 8 / 5, 5 / 3]"
  by (simp add: ex_world_def ex_model_def np_getrow_def py_index_def)

theorem index_out_of_range_errors_witness:
  "fst (scatter_plot toy_mpl 0 2 9 8 ''Label'' ''Label'' False ex_world) = Inl ValueError \<and>
   loadings_plot toy_np toy_mpl 3 (1 / 10) 9 10 ex_world = (Inl IndexError, ex_world) \<and>
   (\<exists>e. loadings_plot toy_np toy_mpl (2 ^ 63 + 1) (1 / 10) 9 10 ex_world = (Inl e, ex_world)) \<and>
   shape0 (loadings (self ex_world)) = 2 \<and>
   np_getrow toy_np (loadings (self ex_world)) (- 1 - 1) = Inr (rows (loadings (self ex_world)) ! 0) \<and>
   fst (loadings_plot toy_np toy_mpl (- 1) (1 / 10) 9 10 ex_world) = Inr 0 \<and>
   fst (loadings_plot toy_np toy_mpl (- 1 + 2) (1 / 10) 9 10 ex_world) = Inr 0"
proof -
  note a = index_out_of_range_errors [where PC_x = 0 and PC_y = 2 and w = ex_world
          and mpl = toy_mpl and wd = 9 and ht = 8 and hue = "''Label''" and sty = "''Label''"
          and lab = False and PC = 3 and np = toy_np and cr = "1 / 10" and wd' = 9 and ht' = 10]
  note b = index_out_of_range_errors [where PC_x = 0 and PC_y = 2 and w = ex_world
          and mpl = toy_mpl and wd = 9 and ht = 8 and hue = "''Label''" and sty = "''Label''"
          and lab = False and PC = "2 ^ 63 + 1" and np = toy_np and cr = "1 / 10" and wd' = 9
          and ht' = 10]
  note c = index_out_of_range_errors [where PC_x = 0 and PC_y = 2 and w = ex_world
          and mpl = toy_mpl and wd = 9 and ht = 8 and hue = "''Label''" and sty = "''Label''"
          and lab = False and PC = "- 1" and np = toy_np and cr = "1 / 10" and wd' = 9
          and ht' = 10]
  have one: "loadings_plot toy_np toy_mpl (- 1 + int (shape0 (loadings (self ex_world))))
               (1 / 10) 9 10 ex_world =
             (Inr 0, snd (loadings_plot toy_np toy_mpl 1 (1 / 10) 9 10 ex_world))"
    by (simp add: ex_sizes ex_loadings_plot_1)
  from a have p1: "fst (scatter_plot toy_mpl 0 2 9 8 ''Label'' ''Label'' False ex_world)
                     = Inl ValueError"
    and p2: "loadings_plot toy_np toy_mpl 3 (1 / 10) 9 10 ex_world = (Inl IndexError, ex_world)"
    by (simp_all add: ex_sizes ex_expl_var ex_pc_df toy_style)
  from b have p3: "\<exists>e. loadings_plot toy_np toy_mpl (2 ^ 63 + 1) (1 / 10) 9 10 ex_world
                        = (Inl e, ex_world)"
    by (simp add: ex_sizes)
  from c have p4: "np_getrow toy_np (loadings (self ex_world)) (- 1 - 1) =
                     Inr (rows (loadings (self ex_world)) ! 0)"
    and p5: "\<forall>fig w'. loadings_plot toy_np toy_mpl (- 1 + int (shape0 (loadings (self ex_world))))
                          (1 / 10) 9 10 ex_world = (Inr fig, w') \<longrightarrow>
               fst (loadings_plot toy_np toy_mpl (- 1) (1 / 10) 9 10 ex_world) = Inr fig"
    by (auto simp: ex_sizes(2))
  from p5 one have p6: "fst (loadings_plot toy_np toy_mpl (- 1) (1 / 10) 9 10 ex_world) = Inr 0"
    by blast
  from p1 p2 p3 p4 p6 show ?thesis by (simp add: ex_sizes ex_loadings_plot_1)
qed

theorem loadings_plot_index_zero_counterexample:
  "PCA_Model_init toy_sk toy_scale ex_dataset (Some ''auto'') \<lparr>n_components = Some 2\<rparr>
     = Inr (self ex_world) \<and>
   n_components' (pca (self ex_world)) = 2 \<and> (0 :: int) < 1 \<and>
   fst (loadings_plot toy_np toy_mpl 0 (1 / 10) 9 10 ex_world) = Inr 0"
  by (simp add: ex_loadings_plot_0 ex_sizes ex_init) (simp add: ex_world_def)

theorem loadings_plot_reshape_witness:
  "fst (loadings_plot toy_np toy_mpl 1 (1 / 10) 9 10 ex_world) = Inr 0 \<and>
   length (rows (loadings (self ex_world)) ! nat (1 - 1)) =
     length (ret_time ex_spectrum) * length (drift_time ex_spectrum) \<and>
   length (rows (loadings (self ex_world_bad)) ! nat (1 - 1)) \<noteq>
     length (ret_time (ex_spectrum\<lparr>ret_time := [1, 2, 3]\<rparr>)) *
     length (drift_time (ex_spectrum\<lparr>ret_time := [1, 2, 3]\<rparr>)) \<and>
   loadings_plot toy_np toy_mpl 1 (1 / 10) 9 10 ex_world_bad = (Inl ValueError, ex_world_bad)"
  using loadings_plot_reshape [OF ex_getitem, where PC = 1 and np = toy_np and mpl = toy_mpl
          and cr = "1 / 10" and wd = 9 and ht = 10]
    loadings_plot_reshape [OF ex_bad_getitem, where PC = 1 and np = toy_np and mpl = toy_mpl
          and cr = "1 / 10" and wd = 9 and ht = 10]
  by (simp add: ex_sizes ex_loadings_plot_1 ex_spectrum_def)

lemma ex_score_table_ok: "score_table_ok (self ex_world)"
  by (simp add: score_table_ok_def ex_world_def ex_model_def ex_dataset_def)

theorem scatter_plot_label_percentage_witness:
  "score_table_ok (self ex_world) \<and>
   explained_variance_ratio' (pca (self ex_world)) = [2 / 3, 2 / 9] \<and>
   fst (scatter_plot toy_mpl 1 2 9 8 ''Label'' ''Label'' True ex_world) = Inr 0 \<and>
   xlabel (figs (snd (scatter_plot toy_mpl 1 2 9 8 ''Label'' ''Label'' True ex_world)) ! 0) =
     Some \<lparr>text_of = [PyStr ''PC 1 ('', PyFloat (667 / 10), PyStr '' % of variance)''],
           fontsize = None\<rparr> \<and>
   ylabel (figs (snd (scatter_plot toy_mpl 1 2 9 8 ''Label'' ''Label'' True ex_world)) ! 0) =
     Some \<lparr>text_of = [PyStr ''PC 2 ('', PyFloat (111 / 5), PyStr '' % of variance)''],
           fontsize = None\<rparr>"
  using scatter_plot_label_percentage [where PC_x = 1 and PC_y = 2 and w = ex_world
          and mpl = toy_mpl and wd = 9 and ht = 8 and hue = "''Label''" and sty = "''Label''"
          and lab = True]
    ex_score_table_ok
  by (simp add: ex_sizes ex_scatter_plot str_int_small py_round_nd_def py_round_def Let_def)

theorem scree_plot_cumulative_witness:
  "fst (scree_plot toy_mpl 9 8 ''seaborn'' ex_world) = Inr 0 \<and>
   map line_y (plots (figs (snd (scree_plot toy_mpl 9 8 ''seaborn'' ex_world)) ! 0)) =
     [[200 / 3, 800 / 9], [200 / 3, 200 / 9]] \<and>
   sorted [200 / 3, 800 / 9 :: real] \<and>
   (800 / 9 :: real) = sum_list [200 / 3, 200 / 9]"
proof -
  have nonneg: "\<forall>v\<in>set (explained_variance_ratio' (pca (self ex_world))). 0 \<le> v"
    by (simp add: ex_sizes)
  from scree_plot_cumulative [OF toy_style ex_sizes(3) [folded ex_sizes(1)] nonneg, of 9 8]
  obtain fig w' cum per where
    run: "scree_plot toy_mpl 9 8 ''seaborn'' ex_world = (Inr fig, w')"
    and pl: "plots (figs w' ! fig) = [cum, per]"
    and per: "line_y per = map (\<lambda>v. v * 100) (explained_variance_ratio' (pca (self ex_world)))"
    and cum: "line_y cum =
                map (\<lambda>v. v * 100) (np_cumsum (explained_variance_ratio' (pca (self ex_world))))"
    and srt: "sorted (line_y cum)"
    and lst: "explained_variance_ratio' (pca (self ex_world)) \<noteq> [] \<longrightarrow>
                last (line_y cum) = sum_list (line_y per) \<and>
                last (line_y cum) = sum_list (explained_variance_ratio' (pca (self ex_world))) * 100"
    by blast
  from ex_scree_plot run have fig: "fig = 0" by auto
  from per have per': "line_y per = [200 / 3, 200 / 9]" by (simp add: ex_sizes)
  from cum have cum': "line_y cum = [200 / 3, 800 / 9]" by (simp add: ex_sizes np_cumsum_def)
  from run fig pl per' cum' srt lst show ?thesis by (simp add: ex_sizes)
qed

theorem plot_methods_frame_witness:
  "fst (scatter_plot toy_mpl 1 2 9 8 ''Label'' ''Label'' True ex_world) = Inr 0 \<and>
   self (snd (scatter_plot toy_mpl 1 2 9 8 ''Label'' ''Label'' True ex_world)) = self ex_world \<and>
   length (figs (snd (scatter_plot toy_mpl 1 2 9 8 ''Label'' ''Label'' True ex_world))) = 1 \<and>
   fst (loadings_plot toy_np toy_mpl 1 (1 / 10) 9 10 ex_world) = Inr 0 \<and>
   self (snd (loadings_plot toy_np toy_mpl 1 (1 / 10) 9 10 ex_world)) = self ex_world \<and>
   length (figs (snd (loadings_plot toy_np toy_mpl 1 (1 / 10) 9 10 ex_world))) = 1 \<and>
   fst (scree_plot toy_mpl 9 8 ''seaborn'' ex_world) = Inr 0 \<and>
   self (snd (scree_plot toy_mpl 9 8 ''seaborn'' ex_world)) = self ex_world \<and>
   length (figs (snd (scree_plot toy_mpl 9 8 ''seaborn'' ex_world))) = 1"
  using plot_methods_frame [where np = toy_np and mpl = toy_mpl and PC_x = 1 and PC_y = 2 and wd = 9 and ht = 8
          and hue = "''Label''" and sty = "''Label''" and lab = True and w = ex_world]
    plot_methods_frame [where np = toy_np and mpl = toy_mpl and PC = 1 and cr = "1 / 10" and wd = 9 and ht = 10
          and w = ex_world]
    plot_methods_frame [where np = toy_np and mpl = toy_mpl and wd = 9 and ht = 8 and sty = "''seaborn''"
          and w = ex_world]
    ex_scree_plot
  by (auto simp: ex_scatter_plot ex_loadings_plot_1 ex_sizes)

theorem loadings_plot_ticks_witness:
  "auto_xticks toy_mpl (new_figure (9, 10) None) = [-1, 0, 1, 2, 3] \<and>
   auto_yticks toy_mpl (new_figure (9, 10) None) = [-0.5, 0, 0.5, 1, 1.5] \<and>
   ret_time ex_spectrum = [10.4, 20.5] \<and> drift_time ex_spectrum = [1.04, 1.16, 1.26] \<and>
   xticks (figs (snd (loadings_plot toy_np toy_mpl 1 (1 / 10) 9 10 ex_world)) ! 0) =
     Some ([0, 1, 2], [PyFloat 1, PyFloat (6 / 5), PyFloat (13 / 10)]) \<and>
   yticks (figs (snd (loadings_plot toy_np toy_mpl 1 (1 / 10) 9 10 ex_world)) ! 0) =
     Some ([0, 1 / 2, 1], [PyInt 10, PyInt 10, PyInt 20]) \<and>
   x_minor_locator (figs (snd (loadings_plot toy_np toy_mpl 1 (1 / 10) 9 10 ex_world)) ! 0) =
     Some AutoMinorLocator \<and>
   y_minor_locator (figs (snd (loadings_plot toy_np toy_mpl 1 (1 / 10) 9 10 ex_world)) ! 0) =
     Some AutoMinorLocator"
proof -
  have a: "auto_xticks toy_mpl (new_figure (9, 10) None) = [-1, 0, 1, 2, 3]"
    "auto_yticks toy_mpl (new_figure (9, 10) None) = [-0.5, 0, 0.5, 1, 1.5]"
    "ret_time ex_spectrum = [10.4, 20.5]" "drift_time ex_spectrum = [1.04, 1.16, 1.26]"
    by (simp_all add: toy_mpl_def ex_spectrum_def)
  have b: "figs (snd (loadings_plot toy_np toy_mpl 1 (1 / 10) 9 10 ex_world)) ! 0 =
     (heatmap 9 10 \<lparr>shape0 = 2, shape1 = 3, rows = [[0, 1, 4 / 3], [3 / 2, 8 / 5, 5 / 3]]\<rparr>
            (1 / 10))
          \<lparr>xticks := Some ([0, 1, 2], [PyFloat 1, PyFloat (6 / 5), PyFloat (13 / 10)]),
           yticks := Some ([0, 1 / 2, 1], [PyInt 10, PyInt 10, PyInt 20]),
           x_minor_locator := Some AutoMinorLocator,
           y_minor_locator := Some AutoMinorLocator,
           xlabel := Some \<lparr>text_of = [PyStr ''Drift Time [ms]''], fontsize = Some 12\<rparr>,
           ylabel := Some \<lparr>text_of = [PyStr ''Retention Time [s]''], fontsize = Some 12\<rparr>,
           title := Some \<lparr>text_of = [PyStr ''PCA Loadings of PC 1''], fontsize = Some 16\<rparr>\<rparr>"
    by (simp add: ex_loadings_plot_1)
  show ?thesis
    using loadings_plot_ticks [OF ex_loadings_plot_1]
    by (simp only: a b) simp
qed

theorem loadings_plot_PC_zero_witness:
  "0 < shape0 (loadings (self ex_world)) \<and>
   fst (loadings_plot toy_np toy_mpl (int (shape0 (loadings (self ex_world)))) (1 / 10) 9 10 ex_world)
     = Inr 0 \<and>
   fst (loadings_plot toy_np toy_mpl 0 (1 / 10) 9 10 ex_world) = Inr 0 \<and>
   last (rows (loadings (self ex_world))) = [1, 3 / 2, 5 / 3, 7 / 4, 9 / 5, 11 / 6] \<and>
   map (\<lambda>a. rows (img a))
     (imshows (figs (snd (loadings_plot toy_np toy_mpl 0 (1 / 10) 9 10 ex_world)) ! 0)) =
     [[[1, 3 / 2, 5 / 3], [7 / 4, 9 / 5, 11 / 6]]]"
proof -
  have n: "0 < shape0 (loadings (self ex_world))" by (simp add: ex_sizes)
  have ok: "loadings_plot toy_np toy_mpl (int (shape0 (loadings (self ex_world)))) (1 / 10) 9 10 ex_world
              = (Inr 0, snd (loadings_plot toy_np toy_mpl 2 (1 / 10) 9 10 ex_world))"
    by (simp add: ex_sizes ex_loadings_plot_2)
  from loadings_plot_PC_zero [OF n ok] n ok show ?thesis
    by (simp add: ex_loadings_plot_0 heatmap_def) (simp add: ex_world_def ex_model_def)
qed

end
